theory Spec2Isabelle
  imports Complex_Main "HOL-Library.Word" "HOL-Library.Signed_Division"
begin

section \<open>The interpreter as the module sees it\<close>

text \<open>
  \<^verbatim>\<open>compressionmodule.c\<close> talks to the Python interpreter through the C API. The
  model keeps the part of the interpreter the module can observe: the objects found in
  a header (integers, strings, lists, and objects that are none of these), the error
  indicator, the calls made to a header's item lookup, the number of blocks obtained
  from \<^verbatim>\<open>PyMem_Malloc\<close> that are still allocated, and the sizes with which a memory
  file has been requested from CFITSIO. C types follow the LP64
  convention: \<^verbatim>\<open>int\<close> and \<^verbatim>\<open>unsigned int\<close> are 32-bit words, \<^verbatim>\<open>long\<close>,
  \<^verbatim>\<open>long long\<close>, \<^verbatim>\<open>size_t\<close> and their unsigned variants are 64-bit words. A
  \<^verbatim>\<open>double\<close> is modelled by the real number it denotes; rounding is not modelled.
  Reference counts, the temporary key object of a lookup, the text of error messages
  and what \<^verbatim>\<open>printf\<close> writes are left out. A Python integer is \<open>PyInt\<close> whatever its size.
\<close>

datatype pyexc = KeyError | TypeError | ValueError | OverflowError | MemoryError

datatype pyobj = PyInt int | PyString string | PyList "pyobj list" | PyNone

record pystate =
  err :: "pyexc option"
  getitems :: "string list"
  blocks :: nat
  memfiles :: "64 word list"

text \<open>
  A header is an object with an item lookup: for a keyword it yields a value or raises.
  A missing keyword raises \<open>KeyError\<close>; any other exception is a lookup failure too.
\<close>

type_synonym header = "string \<Rightarrow> pyexc + pyobj"

definition header_of :: "(string \<times> pyobj) list \<Rightarrow> header" where
  "header_of kvs = (\<lambda>k. case map_of kvs k of None \<Rightarrow> Inl KeyError | Some v \<Rightarrow> Inr v)"

definition PyErr_Clear :: "pystate \<Rightarrow> pystate" where
  "PyErr_Clear s = s\<lparr>err := None\<rparr>"

definition PyErr_SetString :: "pyexc \<Rightarrow> pystate \<Rightarrow> pystate" where
  "PyErr_SetString e s = s\<lparr>err := Some e\<rparr>"

definition PyErr_Occurred :: "pystate \<Rightarrow> bool" where
  "PyErr_Occurred s = (err s \<noteq> None)"

text \<open>\<^verbatim>\<open>PyObject_GetItem\<close>: the value, or \<^verbatim>\<open>NULL\<close> (\<open>None\<close>) with the exception set.\<close>

definition PyObject_GetItem :: "header \<Rightarrow> string \<Rightarrow> pystate \<Rightarrow> pyobj option \<times> pystate" where
  "PyObject_GetItem h k s =
     (let s1 = s\<lparr>getitems := getitems s @ [k]\<rparr>
      in case h k of
           Inl e \<Rightarrow> (None, PyErr_SetString e s1)
         | Inr v \<Rightarrow> (Some v, s1))"

text \<open>
  The conversions of the C API. Each returns its error value and sets the error
  indicator when the object has the wrong type or does not fit; on success the
  indicator is left as it was.
\<close>

definition long_value :: "pyobj \<Rightarrow> pyexc + 64 word" where
  "long_value v =
     (case v of
        PyInt i \<Rightarrow> if - (2 ^ 63) \<le> i \<and> i < 2 ^ 63 then Inr (word_of_int i) else Inl OverflowError
      | _ \<Rightarrow> Inl TypeError)"

definition PyLong_AsLong :: "pyobj \<Rightarrow> pystate \<Rightarrow> 64 word \<times> pystate" where
  "PyLong_AsLong v s =
     (case long_value v of Inr w \<Rightarrow> (w, s) | Inl e \<Rightarrow> (- 1, PyErr_SetString e s))"

definition PyLong_AsLongLong :: "pyobj \<Rightarrow> pystate \<Rightarrow> 64 word \<times> pystate" where
  "PyLong_AsLongLong v s =
     (case long_value v of Inr w \<Rightarrow> (w, s) | Inl e \<Rightarrow> (- 1, PyErr_SetString e s))"

text \<open>
  An integer converts to a \<^verbatim>\<open>double\<close> when it rounds to a finite one, that is when its
  magnitude is below \<open>2\<^sup>1\<^sup>0\<^sup>2\<^sup>4 - 2\<^sup>9\<^sup>7\<^sup>0\<close>; beyond that the conversion raises.
\<close>

definition PyLong_AsDouble :: "pyobj \<Rightarrow> pystate \<Rightarrow> real \<times> pystate" where
  "PyLong_AsDouble v s =
     (case v of
        PyInt i \<Rightarrow>
          if \<bar>i\<bar> < 2 ^ 1024 - 2 ^ 970 then (real_of_int i, s)
          else (- 1, PyErr_SetString OverflowError s)
      | _ \<Rightarrow> (- 1, PyErr_SetString TypeError s))"

text \<open>\<^verbatim>\<open>PyString_AsString\<close>: a pointer to the characters, or \<^verbatim>\<open>NULL\<close> (\<open>None\<close>).\<close>

definition PyString_AsString :: "pyobj \<Rightarrow> pystate \<Rightarrow> string option \<times> pystate" where
  "PyString_AsString v s =
     (case v of PyString x \<Rightarrow> (Some x, s) | _ \<Rightarrow> (None, PyErr_SetString TypeError s))"

section \<open>HeaderAccessor: the four typed getters\<close>

definition get_header_string :: "header \<Rightarrow> string \<Rightarrow> string option \<Rightarrow> pystate \<Rightarrow> string option \<times> pystate" where
  "get_header_string h keyword def s =
     (case PyObject_GetItem h keyword s of
        (Some keyval, s1) \<Rightarrow> PyString_AsString keyval s1
      | (None, s1) \<Rightarrow> (def, PyErr_Clear s1))"

definition get_header_long :: "header \<Rightarrow> string \<Rightarrow> 64 word \<Rightarrow> pystate \<Rightarrow> 64 word \<times> pystate" where
  "get_header_long h keyword def s =
     (case PyObject_GetItem h keyword s of
        (Some keyval, s1) \<Rightarrow> PyLong_AsLong keyval s1
      | (None, s1) \<Rightarrow> (def, PyErr_Clear s1))"

definition get_header_double :: "header \<Rightarrow> string \<Rightarrow> real \<Rightarrow> pystate \<Rightarrow> real \<times> pystate" where
  "get_header_double h keyword def s =
     (case PyObject_GetItem h keyword s of
        (Some keyval, s1) \<Rightarrow> PyLong_AsDouble keyval s1
      | (None, s1) \<Rightarrow> (def, PyErr_Clear s1))"

definition get_header_longlong :: "header \<Rightarrow> string \<Rightarrow> 64 word \<Rightarrow> pystate \<Rightarrow> 64 word \<times> pystate" where
  "get_header_longlong h keyword def s =
     (case PyObject_GetItem h keyword s of
        (Some keyval, s1) \<Rightarrow> PyLong_AsLongLong keyval s1
      | (None, s1) \<Rightarrow> (def, PyErr_Clear s1))"

section \<open>C strings, character arrays and integer conversions\<close>

definition NUL :: char where
  "NUL = CHR 0x00"

text \<open>The C string that a character array holds, or a pointer points to: up to the first NUL.\<close>

definition c_str :: "string \<Rightarrow> string" where
  "c_str xs = takeWhile (\<lambda>c. c \<noteq> NUL) xs"

text \<open>
  \<^verbatim>\<open>strncpy(dst, src, n)\<close> writes exactly \<open>n\<close> characters: those of \<open>src\<close>, then NULs.
  \<^verbatim>\<open>strcpy(dst, src)\<close> writes the string and its NUL. \<^verbatim>\<open>memcpy\<close> is taken in elements.
\<close>

definition strncpy :: "string \<Rightarrow> string \<Rightarrow> nat \<Rightarrow> string" where
  "strncpy dst src n = take n (c_str src @ replicate n NUL) @ drop n dst"

definition strcpy :: "string \<Rightarrow> string \<Rightarrow> string" where
  "strcpy dst src = c_str src @ NUL # drop (Suc (length (c_str src))) dst"

definition memcpy :: "'a list \<Rightarrow> 'a list \<Rightarrow> nat \<Rightarrow> 'a list" where
  "memcpy dst src n = take n src @ drop n dst"

definition digit :: "nat \<Rightarrow> char" where
  "digit n = ''0123456789'' ! n"

fun dec :: "nat \<Rightarrow> string" where
  "dec n = (if n < 10 then [digit n] else dec (n div 10) @ [digit (n mod 10)])"

declare dec.simps [simp del]

text \<open>
  \<^verbatim>\<open>snprintf(tkw, n, "<prefix>%u", idx)\<close>: at most \<open>n - 1\<close> characters are kept.
\<close>

definition snprintf :: "nat \<Rightarrow> string \<Rightarrow> nat \<Rightarrow> string" where
  "snprintf n prefix idx = take (n - 1) (prefix @ dec idx)"

text \<open>
  Long division truncates towards zero. Signed overflow is taken to wrap, and a
  conversion to a narrower type keeps the low bits, as the usual compilers do.
\<close>

definition long_div :: "64 word \<Rightarrow> 64 word \<Rightarrow> 64 word" where
  "long_div a b = word_of_int (sint a sdiv sint b)"

definition long_of_int :: "32 word \<Rightarrow> 64 word" where
  "long_of_int x = scast x"

definition int_of_long :: "64 word \<Rightarrow> 32 word" where
  "int_of_long x = ucast x"

section \<open>The CFITSIO structures the module fills in\<close>

text \<open>
  Modelled from the spec: the compression algorithm tag, one of RICE_1, GZIP_1,
  HCOMPRESS_1, PLIO_1 or NONE. The macros are CFITSIO's and are not in this source file;
  the literal 0 that the source stores for an unknown tag is \<open>NOCOMPRESS\<close>.
\<close>

datatype compression = NOCOMPRESS | RICE_1 | GZIP_1 | PLIO_1 | HCOMPRESS_1

datatype hdu_type = IMAGE_HDU | ASCII_TBL | BINARY_TBL

text \<open>
  The arrays \<^verbatim>\<open>znaxis\<close> and \<^verbatim>\<open>tilesize\<close> have \<^verbatim>\<open>MAX_COMPRESS_DIM\<close> elements; the
  two static arrays of this file that are copied into them have six.
\<close>

definition MAX_COMPRESS_DIM :: nat where
  "MAX_COMPRESS_DIM = 6"

text \<open>
  The two structures are declared in CFITSIO's headers, which are not in this source
  file. The records have the fields that this file assigns or reads (\<open>filesize\<close> and
  \<open>validcode\<close> are only read), with the types that the uses imply. In a column descriptor \<open>ttype\<close> is a \<^verbatim>\<open>char[70]\<close>, \<open>tform\<close> a
  \<^verbatim>\<open>char[10]\<close> and \<open>strnull\<close> a \<^verbatim>\<open>char[20]\<close>: the source writes \<^verbatim>\<open>ttype[69]\<close> and
  \<^verbatim>\<open>tform[9]\<close>. A character array is the list of its characters.
\<close>

record tcolumn =
  ttype :: string
  tbcol :: "64 word"
  tdatatype :: "32 word"
  trepeat :: "64 word"
  tscale :: real
  tzero :: real
  tnull :: "64 word"
  strnull :: string
  tform :: string
  twidth :: "64 word"

record FITSfile =
  filesize :: "64 word"
  validcode :: "32 word"
  tableptr :: "tcolumn list"
  hdutype :: hdu_type
  datastart :: "64 word"
  tfield :: "32 word"
  origrows :: "64 word"
  numrows :: "64 word"
  rowlength :: "64 word"
  heapstart :: "64 word"
  heapsize :: "64 word"
  compressimg :: "32 word"
  zcmptype :: string
  compress_type :: compression
  zbitpix :: "32 word"
  zndim :: "32 word"
  znaxis :: "64 word list"
  tilesize :: "64 word list"
  maxtilelen :: "64 word"
  rice_blocksize :: "32 word"
  rice_bytepix :: "32 word"
  maxelem :: "64 word"
  cn_compressed :: "32 word"
  cn_uncompressed :: "32 word"
  cn_gzip_data :: "32 word"
  cn_zscale :: "32 word"
  cn_zzero :: "32 word"
  cn_zblank :: "32 word"
  zscale :: real
  cn_bscale :: real

text \<open>
  The output variables of the format parser: \<^verbatim>\<open>dtcode\<close>, \<^verbatim>\<open>trepeat\<close>, \<^verbatim>\<open>twidth\<close>
  and \<^verbatim>\<open>status\<close>. The parser receives pointers to them, so it is a function from
  their values before the call to their values after it.
\<close>

record tform_vars =
  v_dtcode :: "32 word"
  v_trepeat :: "64 word"
  v_twidth :: "64 word"
  v_status :: "32 word"

text \<open>
  What the module takes from outside this file. The three CFITSIO functions and the
  macro \<^verbatim>\<open>NULL_UNDEFINED\<close> are parameters: nothing is assumed about them.
  \<open>fits_create_memfile\<close> receives the buffer, the declared size and the value of
  \<^verbatim>\<open>status\<close>; it gives the file structure that it stores through the file pointer, or
  \<open>None\<close> when it stores none, and the new value of \<^verbatim>\<open>status\<close>. \<open>fresh_column\<close>,
  \<open>fresh_vars\<close> and \<open>fresh_status\<close> are the contents of memory that the source uses
  before writing it: the descriptors returned by \<^verbatim>\<open>PyMem_New\<close>, the local variables
  \<^verbatim>\<open>dtcode\<close>, \<^verbatim>\<open>trepeat\<close> and \<^verbatim>\<open>twidth\<close> of the column builder, and the local
  variable \<^verbatim>\<open>status\<close> of \<^verbatim>\<open>open_from_pyfits_hdu\<close>.
\<close>

record externals =
  fits_binary_tform :: "string \<Rightarrow> tform_vars \<Rightarrow> tform_vars"
  imcomp_calc_max_elem :: "compression \<Rightarrow> 32 word \<Rightarrow> 32 word \<Rightarrow> 32 word \<Rightarrow> 32 word"
  fits_create_memfile :: "8 word list \<Rightarrow> 64 word \<Rightarrow> 32 word \<Rightarrow> FITSfile option \<times> 32 word"
  NULL_UNDEFINED :: "64 word"
  fresh_column :: "nat \<Rightarrow> tcolumn"
  fresh_vars :: tform_vars
  fresh_status :: "32 word"

section \<open>ColumnDescriptorBuilder: \<^verbatim>\<open>tcolumns_from_header\<close>\<close>

text \<open>
  One pass of the loop, for column \<open>idx\<close>. \<open>None\<close> is undefined behaviour: a getter
  returned \<^verbatim>\<open>NULL\<close> (the keyword holds an object that is not a string) and the source
  hands it to \<^verbatim>\<open>strncpy\<close> or to the parser.
\<close>

definition tcolumns_loop_body ::
  "externals \<Rightarrow> header \<Rightarrow> nat \<Rightarrow> tform_vars \<times> pystate \<Rightarrow> (tcolumn \<times> tform_vars \<times> pystate) option" where
  "tcolumns_loop_body ext h idx vs =
     (let v = fst vs; s = snd vs;
          c0 = fresh_column ext idx;
          c1 = c0\<lparr>ttype := (ttype c0)[0 := NUL], tbcol := 0, tdatatype := - 9999, trepeat := 1,
                  strnull := (strnull c0)[0 := NUL], tform := (tform c0)[0 := NUL], twidth := 0\<rparr>;
          r1 = get_header_string h (snprintf 9 ''TTYPE'' idx) (Some []) s
      in case fst r1 of
           None \<Rightarrow> None
         | Some name \<Rightarrow>
            (let c2 = c1\<lparr>ttype := (strncpy (ttype c1) name 69)[69 := NUL]\<rparr>;
                 r2 = get_header_longlong h (snprintf 9 ''TBCOL'' idx) 0 (snd r1);
                 c3 = c2\<lparr>tbcol := fst r2\<rparr>;
                 r3 = get_header_string h (snprintf 9 ''TFORM'' idx) (Some []) (snd r2)
             in case fst r3 of
                  None \<Rightarrow> None
                | Some form \<Rightarrow>
                   (let c4 = c3\<lparr>tform := (strncpy (tform c3) form 9)[9 := NUL]\<rparr>;
                        v' = fits_binary_tform ext (c_str form) v;
                        c5 = c4\<lparr>tdatatype := v_dtcode v', trepeat := v_trepeat v',
                                twidth := v_twidth v'\<rparr>;
                        r4 = get_header_double h (snprintf 9 ''TSCAL'' idx) 1 (snd r3);
                        r5 = get_header_double h (snprintf 9 ''TZERO'' idx) 0 (snd r4);
                        r6 = get_header_longlong h (snprintf 9 ''TNULL'' idx) (NULL_UNDEFINED ext) (snd r5);
                        c6 = c5\<lparr>tscale := fst r4, tzero := fst r5, tnull := fst r6\<rparr>
                    in Some (c6, v', snd r6))))"

fun tcolumns_loop ::
  "externals \<Rightarrow> header \<Rightarrow> nat list \<Rightarrow> tform_vars \<times> pystate \<Rightarrow> (tcolumn list \<times> tform_vars \<times> pystate) option" where
  "tcolumns_loop ext h [] vs = Some ([], vs)"
| "tcolumns_loop ext h (idx # rest) vs =
     (case tcolumns_loop_body ext h idx vs of
        None \<Rightarrow> None
      | Some (c, vs') \<Rightarrow>
         (case tcolumns_loop ext h rest vs' of
            None \<Rightarrow> None
          | Some (cs, vs'') \<Rightarrow> Some (c # cs, vs'')))"

text \<open>
  The function returns its status (always 0, whatever the parser left in \<^verbatim>\<open>status\<close>),
  the descriptors, the column count and the interpreter state. \<open>mem\<close> says whether
  \<^verbatim>\<open>PyMem_New\<close> finds memory: the source does not test the pointer, so without memory
  the first pass of the loop writes through \<^verbatim>\<open>NULL\<close>, which is \<open>None\<close>; with no column
  there is no pass and the function returns. The counter \<^verbatim>\<open>idx\<close> is an
  \<^verbatim>\<open>unsigned int\<close> compared with an \<^verbatim>\<open>unsigned long\<close>: from \<open>2\<^sup>3\<^sup>2 - 1\<close> columns on it
  wraps before it can exceed the count and the loop does not end, which is \<open>None\<close> too.
  Below that the counter takes the values 1 to the count.
\<close>

definition tcolumns_from_header ::
  "externals \<Rightarrow> header \<Rightarrow> bool \<Rightarrow> pystate \<Rightarrow> (32 word \<times> tcolumn list \<times> 64 word \<times> pystate) option" where
  "tcolumns_from_header ext h mem s =
     (let r = get_header_long h ''TFIELDS'' 0 s;
          tfields = fst r;
          s1 = (if mem then (snd r)\<lparr>blocks := Suc (blocks (snd r))\<rparr> else snd r)
      in if 2 ^ 32 - 1 \<le> unat tfields then None
         else if \<not> mem \<and> tfields \<noteq> 0 then None
         else case tcolumns_loop ext h [1 ..< Suc (unat tfields)] (fresh_vars ext\<lparr>v_status := 0\<rparr>, s1) of
                None \<Rightarrow> None
              | Some (cols, vs) \<Rightarrow> Some (0, cols, tfields, snd vs))"

section \<open>TileConfigResolver: \<^verbatim>\<open>configure_compression\<close>\<close>

text \<open>The static arrays \<^verbatim>\<open>__znaxis\<close> and \<^verbatim>\<open>__tilesize\<close>.\<close>

definition static_znaxis :: "64 word list" where
  "static_znaxis = [440, 300, 0, 0, 0, 0]"

definition static_tilesize :: "64 word list" where
  "static_tilesize = [440, 1, 0, 0, 0, 0]"

definition configure_compression :: "externals \<Rightarrow> FITSfile \<Rightarrow> header \<Rightarrow> FITSfile" where
  "configure_compression ext f header =
     (let f1 = f\<lparr>compressimg := 1\<rparr>;
          f2 = f1\<lparr>zcmptype := (strcpy (zcmptype f1) ''RICE_1'')[6 := NUL]\<rparr>;
          f3 = f2\<lparr>compress_type := RICE_1, zbitpix := 16, zndim := 2,
                  znaxis := memcpy (znaxis f2) static_znaxis MAX_COMPRESS_DIM,
                  tilesize := memcpy (tilesize f2) static_tilesize MAX_COMPRESS_DIM,
                  maxtilelen := 440, rice_blocksize := 32, rice_bytepix := 2\<rparr>;
          f4 = f3\<lparr>maxelem := long_of_int (imcomp_calc_max_elem ext (compress_type f3)
                                  (int_of_long (maxtilelen f3)) (zbitpix f3) (rice_blocksize f3))\<rparr>
      in f4\<lparr>cn_compressed := 1, cn_uncompressed := - 1, cn_gzip_data := - 1, cn_zscale := - 1,
             cn_zzero := - 1, cn_zblank := - 1, cn_bscale := 1, zscale := 1\<rparr>)"

section \<open>HeapLayout: \<^verbatim>\<open>open_from_pyfits_hdu\<close>\<close>

text \<open>
  An HDU object has a header (attribute \<^verbatim>\<open>_header\<close>) and a data array (attribute
  \<^verbatim>\<open>data\<close>), here the array's bytes. The call of \<^verbatim>\<open>fits_create_memfile\<close> is recorded
  in the state with the size it declares.
\<close>

record hdu =
  hdu_header :: header
  hdu_data :: "8 word list"

definition PyArray_NBYTES :: "8 word list \<Rightarrow> 64 word" where
  "PyArray_NBYTES d = of_nat (length d)"

definition call_fits_create_memfile ::
  "externals \<Rightarrow> 8 word list \<Rightarrow> 64 word \<Rightarrow> 32 word \<Rightarrow> pystate \<Rightarrow> (FITSfile option \<times> 32 word) \<times> pystate" where
  "call_fits_create_memfile ext buf bufsize status s =
     (fits_create_memfile ext buf bufsize status, s\<lparr>memfiles := memfiles s @ [bufsize]\<rparr>)"

text \<open>
  The function yields the file structure and the state. \<^verbatim>\<open>status\<close> is passed as it is on
  the stack, never initialised. The file pointer is used without a test: when
  \<^verbatim>\<open>fits_create_memfile\<close> stores no file the next statement writes through the caller's
  uninitialised pointer, which is \<open>None\<close>, as is undefined behaviour in the column
  builder.
\<close>

definition open_from_pyfits_hdu ::
  "externals \<Rightarrow> hdu \<Rightarrow> bool \<Rightarrow> pystate \<Rightarrow> (FITSfile \<times> pystate) option" where
  "open_from_pyfits_hdu ext u mem s =
     (let header = hdu_header u; data = hdu_data u
      in case tcolumns_from_header ext header mem s of
           None \<Rightarrow> None
         | Some (rc, columns, tfields, s1) \<Rightarrow>
            (let r1 = get_header_longlong header ''NAXIS1'' 0 s1; rowlen = fst r1;
                 r2 = get_header_longlong header ''NAXIS2'' 0 (snd r1); nrows = fst r2;
                 r3 = get_header_longlong header ''PCOUNT'' 0 (snd r2); pcount = fst r3;
                 buf = data;
                 bufsize0 = PyArray_NBYTES data + pcount;
                 bufsize = (if bufsize0 < 2880 then 2880 else bufsize0);
                 r4 = call_fits_create_memfile ext buf bufsize (fresh_status ext) (snd r3)
             in case fst (fst r4) of
                  None \<Rightarrow> None
                | Some f \<Rightarrow>
                   (let f1 = f\<lparr>tableptr := columns, hdutype := BINARY_TBL, datastart := 0,
                              tfield := int_of_long tfields, origrows := nrows, numrows := nrows,
                              rowlength := rowlen, heapstart := rowlen * nrows, heapsize := pcount\<rparr>
                    in Some (configure_compression ext f1 header, snd r4))))"

section \<open>The tile count of \<^verbatim>\<open>compression_compressData\<close>\<close>

text \<open>
  The loop over the axes, from the wrapper \<^verbatim>\<open>compression_compressData\<close> (which this
  revision of the file keeps as commented-out text). \<^verbatim>\<open>ntiles\<close> is an \<^verbatim>\<open>int\<close>, the
  extents are \<^verbatim>\<open>long\<close>. \<open>None\<close> is undefined behaviour: an index outside one of the four
  arrays, or a division by zero.
\<close>

function tile_loop ::
  "64 word list \<Rightarrow> 64 word list \<Rightarrow> 32 word \<Rightarrow> nat \<Rightarrow> FITSfile \<times> 32 word \<Rightarrow> (FITSfile \<times> 32 word) option" where
  "tile_loop naxes tileSize naxis ii fn =
     (if int ii < sint naxis then
        (if ii < length naxes \<and> ii < length tileSize \<and> ii < length (znaxis (fst fn))
            \<and> ii < length (tilesize (fst fn)) \<and> tileSize ! ii \<noteq> 0
         then tile_loop naxes tileSize naxis (Suc ii)
                ((fst fn)\<lparr>znaxis := (znaxis (fst fn))[ii := naxes ! ii],
                          tilesize := (tilesize (fst fn))[ii := tileSize ! ii],
                          maxtilelen := maxtilelen (fst fn) * tileSize ! ii\<rparr>,
                 int_of_long (long_of_int (snd fn) * (long_div (naxes ! ii - 1) (tileSize ! ii) + 1)))
         else None)
      else Some fn)"
  by pat_completeness auto

termination
  by (relation "measure (\<lambda>(naxes, tileSize, naxis, ii, fn). nat (sint naxis) - ii)") auto

declare tile_loop.simps [simp del]

text \<open>
  The two arrays are first filled with 1, then the loop runs from axis 0 with
  \<^verbatim>\<open>ntiles = 1\<close>. The other fields that the wrapper copies from its arguments before the
  loop do not enter the count and are left out.
\<close>

definition count_tiles ::
  "64 word list \<Rightarrow> 64 word list \<Rightarrow> 32 word \<Rightarrow> FITSfile \<Rightarrow> (FITSfile \<times> 32 word) option" where
  "count_tiles naxes tileSize naxis f =
     tile_loop naxes tileSize naxis 0
       (f\<lparr>zndim := naxis, maxtilelen := 1,
          tilesize := replicate MAX_COMPRESS_DIM 1, znaxis := replicate MAX_COMPRESS_DIM 1\<rparr>, 1)"

section \<open>List conversion: \<^verbatim>\<open>get_long_array\<close>\<close>

text \<open>The conversion loop: \<^verbatim>\<open>out[i] = PyLong_AsLong(PyList_GetItem(data, i))\<close>.\<close>

fun long_array_loop :: "pyobj list \<Rightarrow> pystate \<Rightarrow> 64 word list \<times> pystate" where
  "long_array_loop [] s = ([], s)"
| "long_array_loop (x # xs) s =
     (let r = PyLong_AsLong x s; rs = long_array_loop xs (snd r)
      in (fst r # fst rs, snd rs))"

text \<open>
  \<open>data_size\<close> is the optional output pointer: \<open>None\<close> for \<^verbatim>\<open>NULL\<close>, else the integer
  it points to. \<open>mem\<close> says whether \<^verbatim>\<open>PyMem_Malloc\<close> finds memory. The result is the
  array or \<^verbatim>\<open>NULL\<close>. \<^verbatim>\<open>size\<close> is an \<^verbatim>\<open>int\<close> holding the list's length.
\<close>

definition get_long_array ::
  "pyobj \<Rightarrow> 32 word option \<Rightarrow> bool \<Rightarrow> pystate \<Rightarrow> 64 word list option \<times> 32 word option \<times> pystate" where
  "get_long_array data data_size mem s =
     (case data of
        PyList xs \<Rightarrow>
          (let size = (of_nat (length xs) :: 32 word)
           in if sint size < 0 then (None, data_size, PyErr_SetString ValueError s)
              else
                (let data_size' = (case data_size of None \<Rightarrow> None | Some old \<Rightarrow> Some size)
                 in if \<not> mem then (None, data_size', PyErr_SetString MemoryError s)
                    else
                      (let r = long_array_loop (take (unat size) xs) (s\<lparr>blocks := Suc (blocks s)\<rparr>)
                       in if PyErr_Occurred (snd r)
                          then (None, data_size', (snd r)\<lparr>blocks := blocks (snd r) - 1\<rparr>)
                          else (Some (fst r), data_size', snd r))))
      | _ \<Rightarrow> (None, data_size, PyErr_SetString TypeError s))"

section \<open>Notions used to state the properties\<close>

text \<open>
  The number of tiles along one axis as the specification gives it: the ceiling of the
  image extent over the tile extent. \<open>tiles_upto\<close> is the product over the axes from
  \<open>i\<close> up to \<open>n\<close>.
\<close>

definition axis_tiles :: "64 word \<Rightarrow> 64 word \<Rightarrow> int" where
  "axis_tiles n t = \<lceil>real_of_int (sint n) / real_of_int (sint t)\<rceil>"

definition tiles_upto :: "64 word list \<Rightarrow> 64 word list \<Rightarrow> nat \<Rightarrow> nat \<Rightarrow> int" where
  "tiles_upto naxes tileSize i n = prod_list (map (\<lambda>a. axis_tiles (naxes ! a) (tileSize ! a)) [i ..< n])"

text \<open>A column descriptor and a file structure with every byte zero, to run the model on.\<close>

definition zero_column :: tcolumn where
  "zero_column = \<lparr>ttype = replicate 70 NUL, tbcol = 0, tdatatype = 0, trepeat = 0, tscale = 0,
     tzero = 0, tnull = 0, strnull = replicate 20 NUL, tform = replicate 10 NUL, twidth = 0\<rparr>"

definition zero_file :: FITSfile where
  "zero_file = \<lparr>filesize = 0, validcode = 0, tableptr = [], hdutype = IMAGE_HDU, datastart = 0, tfield = 0, origrows = 0,
     numrows = 0, rowlength = 0, heapstart = 0, heapsize = 0, compressimg = 0,
     zcmptype = replicate 12 NUL, compress_type = NOCOMPRESS, zbitpix = 0, zndim = 0,
     znaxis = replicate 6 0, tilesize = replicate 6 0, maxtilelen = 0, rice_blocksize = 0,
     rice_bytepix = 0, maxelem = 0, cn_compressed = 0, cn_uncompressed = 0, cn_gzip_data = 0,
     cn_zscale = 0, cn_zzero = 0, cn_zblank = 0, zscale = 0, cn_bscale = 0\<rparr>"

text \<open>
  What a getter returns, as a function of the header alone: the value the source reads
  for a keyword with the defaults it passes.
\<close>

definition header_string :: "header \<Rightarrow> string \<Rightarrow> string option" where
  "header_string h k =
     (case h k of Inl e \<Rightarrow> Some [] | Inr (PyString x) \<Rightarrow> Some x | Inr _ \<Rightarrow> None)"

definition header_long :: "header \<Rightarrow> string \<Rightarrow> 64 word \<Rightarrow> 64 word" where
  "header_long h k d =
     (case h k of Inl e \<Rightarrow> d | Inr v \<Rightarrow> (case long_value v of Inr w \<Rightarrow> w | Inl e \<Rightarrow> - 1))"

section \<open>A format parser and inputs to run the model on\<close>

text \<open>
  Modelled from the spec: the \<^verbatim>\<open>TFORM\<close> parser, CFITSIO's \<^verbatim>\<open>fits_binary_tform\<close>, which
  is not in this source file. A format is \<^verbatim>\<open>[repeat]<type-letter>[width]\<close>; the letter
  selects the element type; the repeat count is 1 when absent; the width depends on the
  type and is read from the string only for characters; after the letter of an array
  descriptor comes the letter of its elements. A string without a recognised letter
  fails. The numeric type codes, the element widths and the status value are CFITSIO's.
\<close>

definition is_digit :: "char \<Rightarrow> bool" where
  "is_digit c = (c \<in> set ''0123456789'')"

definition number :: "string \<Rightarrow> nat" where
  "number ds = foldl (\<lambda>n c. 10 * n + (of_char c - 48)) 0 ds"

definition tform_code :: "char \<Rightarrow> (32 word \<times> 64 word) option" where
  "tform_code = map_of
     [(CHR ''L'', (14, 1)), (CHR ''X'', (1, 1)), (CHR ''B'', (11, 1)), (CHR ''I'', (21, 2)),
      (CHR ''J'', (41, 4)), (CHR ''K'', (81, 8)), (CHR ''A'', (16, 1)), (CHR ''E'', (42, 4)),
      (CHR ''D'', (82, 8)), (CHR ''C'', (83, 8)), (CHR ''M'', (163, 16))]"

definition BAD_TFORM :: "32 word" where
  "BAD_TFORM = 261"

definition spec_binary_tform :: "string \<Rightarrow> tform_vars \<Rightarrow> tform_vars" where
  "spec_binary_tform form v =
     (let ds = takeWhile is_digit form;
          repeat = (if ds = [] then 1 else of_nat (number ds))
      in case dropWhile is_digit form of
           [] \<Rightarrow> v\<lparr>v_status := BAD_TFORM\<rparr>
         | c # cs \<Rightarrow>
            if c = CHR ''P'' \<or> c = CHR ''Q'' then
              (case cs of
                 [] \<Rightarrow> v\<lparr>v_status := BAD_TFORM\<rparr>
               | e # es \<Rightarrow>
                  (case tform_code e of
                     None \<Rightarrow> v\<lparr>v_status := BAD_TFORM\<rparr>
                   | Some cw \<Rightarrow> v\<lparr>v_dtcode := - fst cw, v_trepeat := repeat, v_twidth := snd cw\<rparr>))
            else
              (case tform_code c of
                 None \<Rightarrow> v\<lparr>v_status := BAD_TFORM\<rparr>
               | Some cw \<Rightarrow>
                  v\<lparr>v_dtcode := fst cw, v_trepeat := repeat,
                    v_twidth := (if c = CHR ''A'' then
                                   (if takeWhile is_digit cs = [] then repeat
                                    else of_nat (number (takeWhile is_digit cs)))
                                 else snd cw)\<rparr>))"

text \<open>
  An instance of the externals to run the model on: the parser above, zeroed memory,
  CFITSIO's value of \<^verbatim>\<open>NULL_UNDEFINED\<close>, for \<^verbatim>\<open>imcomp_calc_max_elem\<close> a stand-in that
  returns the tile length, and for \<^verbatim>\<open>fits_create_memfile\<close> a stand-in that follows
  CFITSIO's convention on \<^verbatim>\<open>status\<close>: it does nothing when the status is positive, and
  otherwise creates a file of the declared size. With \<open>fresh_status\<close> 0 the file is
  created; \<open>failing_externals\<close> is the same instance with a positive value on the stack.
\<close>

definition example_externals :: externals where
  "example_externals =
     \<lparr>fits_binary_tform = spec_binary_tform,
      imcomp_calc_max_elem = (\<lambda>comptype nx zbitpix blocksize. nx),
      fits_create_memfile =
        (\<lambda>buf bufsize status.
           if 0 < sint status then (None, status)
           else (Some (zero_file\<lparr>filesize := bufsize\<rparr>), status)),
      NULL_UNDEFINED = 1234554321,
      fresh_column = (\<lambda>idx. zero_column),
      fresh_vars = \<lparr>v_dtcode = 0, v_trepeat = 0, v_twidth = 0, v_status = 0\<rparr>,
      fresh_status = 0\<rparr>"

definition failing_externals :: externals where
  "failing_externals = example_externals\<lparr>fresh_status := 1\<rparr>"

definition clean :: pystate where
  "clean = \<lparr>err = None, getitems = [], blocks = 0, memfiles = []\<rparr>"



definition table_hdu :: hdu where
  "table_hdu = \<lparr>hdu_header = header_of [(''NAXIS1'', PyInt 8), (''NAXIS2'', PyInt 300), (''PCOUNT'', PyInt 1200)],
                 hdu_data = replicate 3600 0\<rparr>"

definition small_hdu :: hdu where
  "small_hdu = \<lparr>hdu_header = header_of [(''NAXIS1'', PyInt 8), (''NAXIS2'', PyInt 2), (''PCOUNT'', PyInt 40)],
                 hdu_data = replicate 56 0\<rparr>"

definition short_hdu :: hdu where
  "short_hdu = \<lparr>hdu_header = header_of [(''NAXIS1'', PyInt 100), (''NAXIS2'', PyInt 100), (''PCOUNT'', PyInt 50)],
                 hdu_data = replicate 10 0\<rparr>"

definition negative_hdu :: hdu where
  "negative_hdu = \<lparr>hdu_header = header_of [(''PCOUNT'', PyInt (- 50))], hdu_data = replicate 10 0\<rparr>"

definition wide_hdu :: hdu where
  "wide_hdu = \<lparr>hdu_header = header_of [(''NAXIS1'', PyInt 4294967296), (''NAXIS2'', PyInt 4294967296)],
                hdu_data = []\<rparr>"

section \<open>Properties of the getters\<close>

lemma GetItem_fail:
  "h k = Inl e \<Longrightarrow>
     PyObject_GetItem h k s = (None, s\<lparr>err := Some e, getitems := getitems s @ [k]\<rparr>)"
  by (simp add: PyObject_GetItem_def PyErr_SetString_def)

lemma GetItem_found:
  "h k = Inr v \<Longrightarrow> PyObject_GetItem h k s = (Some v, s\<lparr>getitems := getitems s @ [k]\<rparr>)"
  by (simp add: PyObject_GetItem_def)

text \<open>
  C4. When the lookup of the keyword fails (the keyword is missing, or the lookup raises
  anything else), each of the four getters returns the caller's default; the state
  afterwards is the state before with exactly one lookup, of that keyword, recorded and
  the error indicator cleared. Nothing else changes.
\<close>

theorem getters_default_on_failed_lookup:
  assumes "h k = Inl e"
  shows "get_header_string h k ds s = (ds, s\<lparr>err := None, getitems := getitems s @ [k]\<rparr>)
       \<and> get_header_long h k dl s = (dl, s\<lparr>err := None, getitems := getitems s @ [k]\<rparr>)
       \<and> get_header_double h k dd s = (dd, s\<lparr>err := None, getitems := getitems s @ [k]\<rparr>)
       \<and> get_header_longlong h k dl s = (dl, s\<lparr>err := None, getitems := getitems s @ [k]\<rparr>)"
  using assms
  by (simp add: get_header_string_def get_header_long_def get_header_double_def
      get_header_longlong_def GetItem_fail PyErr_Clear_def)

theorem getters_default_on_failed_lookup_witness:
  "header_of [] ''PCOUNT'' = Inl KeyError
   \<and> get_header_string (header_of []) ''PCOUNT'' (Some ''x'') \<lparr>err = Some TypeError, getitems = [], blocks = 0, memfiles = []\<rparr>
       = (Some ''x'', \<lparr>err = None, getitems = [''PCOUNT''], blocks = 0, memfiles = []\<rparr>)
   \<and> get_header_long (header_of []) ''PCOUNT'' 7 \<lparr>err = Some TypeError, getitems = [], blocks = 0, memfiles = []\<rparr>
       = (7, \<lparr>err = None, getitems = [''PCOUNT''], blocks = 0, memfiles = []\<rparr>)
   \<and> get_header_double (header_of []) ''PCOUNT'' 1 \<lparr>err = Some TypeError, getitems = [], blocks = 0, memfiles = []\<rparr>
       = (1, \<lparr>err = None, getitems = [''PCOUNT''], blocks = 0, memfiles = []\<rparr>)
   \<and> get_header_longlong (header_of []) ''PCOUNT'' 7 \<lparr>err = Some TypeError, getitems = [], blocks = 0, memfiles = []\<rparr>
       = (7, \<lparr>err = None, getitems = [''PCOUNT''], blocks = 0, memfiles = []\<rparr>)"
proof -
  have h: "header_of [] ''PCOUNT'' = Inl KeyError"
    by (simp add: header_of_def)
  show ?thesis
    using h getters_default_on_failed_lookup [where h = "header_of []" and k = "''PCOUNT''"
        and e = KeyError and ds = "Some ''x''" and dl = 7 and dd = 1
        and s = "\<lparr>err = Some TypeError, getitems = [], blocks = 0, memfiles = []\<rparr>", OF h]
    by simp
qed

text \<open>On every path, found or not, a getter makes exactly one lookup.\<close>

lemma getters_single_lookup:
  "getitems (snd (get_header_string h k ds s)) = getitems s @ [k]
   \<and> getitems (snd (get_header_long h k dl s)) = getitems s @ [k]
   \<and> getitems (snd (get_header_double h k dd s)) = getitems s @ [k]
   \<and> getitems (snd (get_header_longlong h k dl s)) = getitems s @ [k]"
  by (simp add: get_header_string_def get_header_long_def get_header_double_def
      get_header_longlong_def PyObject_GetItem_def PyErr_SetString_def PyErr_Clear_def
      PyString_AsString_def PyLong_AsLong_def PyLong_AsLongLong_def PyLong_AsDouble_def Let_def
      split: sum.splits pyobj.splits)

section \<open>The tile count\<close>

lemma ceil_div_int:
  fixes a b :: int
  assumes "1 \<le> a" "1 \<le> b"
  shows "\<lceil>real_of_int a / real_of_int b\<rceil> = (a - 1) div b + 1"
proof -
  define q where "q = (a - 1) div b"
  define r where "r = (a - 1) mod b"
  have b: "0 < b" using assms by simp
  have eq: "a = q * b + r + 1" unfolding q_def r_def by simp
  have r: "0 \<le> r" "r < b" unfolding r_def using b by simp_all
  have lo: "q * b < a" using eq r by linarith
  have hi: "a \<le> (q + 1) * b" using eq r by (simp add: algebra_simps)
  have "real_of_int (q + 1) - 1 < real_of_int a / real_of_int b"
    using lo b by (simp add: pos_less_divide_eq flip: of_int_mult of_int_less_iff)
  moreover have "real_of_int a / real_of_int b \<le> real_of_int (q + 1)"
    using hi b by (simp add: pos_divide_le_eq flip: of_int_mult of_int_add)
  ultimately show ?thesis unfolding q_def [symmetric] by (simp add: ceiling_eq_iff)
qed

lemma sdiv_nonneg: "0 \<le> a \<Longrightarrow> 0 < b \<Longrightarrow> (a::int) sdiv b = a div b"
  by (simp add: signed_divide_int_def sgn_if)

lemma sint_long_of_int:
  "- (2 ^ 63) \<le> k \<Longrightarrow> k < 2 ^ 63 \<Longrightarrow> sint (word_of_int k :: 64 word) = k"
  by (simp add: sint_sbintrunc' signed_take_bit_int_eq_self)

lemma axis_count:
  assumes "1 \<le> sint n" "1 \<le> sint t"
  shows "sint (long_div (n - 1) t + 1) = axis_tiles n t"
proof -
  have n: "sint n < 2 ^ 63" using sint_lt [of n] by simp
  have t: "sint t < 2 ^ 63" using sint_lt [of t] by simp
  have m: "sint (n - 1) = sint n - 1"
    using assms n by (simp add: sint_word_ariths signed_take_bit_int_eq_self)
  have d: "sint (n - 1) sdiv sint t = (sint n - 1) div sint t"
    using assms m by (simp add: sdiv_nonneg)
  have b0: "0 \<le> (sint n - 1) div sint t" using assms by (simp add: pos_imp_zdiv_nonneg_iff)
  have b1: "(sint n - 1) div sint t \<le> sint n - 1"
    using assms by (metis div_by_1 zdiv_mono2 zero_less_one diff_ge_0_iff_ge)
  have w: "sint (word_of_int ((sint n - 1) div sint t) :: 64 word) = (sint n - 1) div sint t"
    using b0 b1 n by (intro sint_long_of_int) linarith+
  have "sint (long_div (n - 1) t + 1) = (sint n - 1) div sint t + 1"
    unfolding long_div_def d
    using b0 b1 n w by (simp add: sint_word_ariths signed_take_bit_int_eq_self)
  then show ?thesis unfolding axis_tiles_def ceil_div_int [OF assms] .
qed

lemma int_of_long_wi: "int_of_long (word_of_int k) = word_of_int k"
  unfolding int_of_long_def by transfer simp

lemma int_of_long_sint: "int_of_long w = word_of_int (sint w)"
proof -
  have "(word_of_int (sint w) :: 64 word) = w" by simp
  then have "int_of_long w = int_of_long (word_of_int (sint w))" by (simp only:)
  then show ?thesis by (simp only: int_of_long_wi)
qed

lemma int_of_long_mult:
  "int_of_long (long_of_int x * y) = x * int_of_long y"
proof -
  have a: "long_of_int x = word_of_int (sint x)"
    unfolding long_of_int_def by (rule scast_eq)
  have "(word_of_int (sint x * uint y) :: 64 word) = word_of_int (sint x) * word_of_int (uint y)"
    by (simp only: of_int_mult)
  also have "\<dots> = long_of_int x * y"
    by (simp only: a word_of_int_uint)
  finally have "int_of_long (long_of_int x * y) = int_of_long (word_of_int (sint x * uint y))"
    by (simp only:)
  also have "\<dots> = word_of_int (sint x * uint y)"
    by (simp only: int_of_long_wi)
  also have "\<dots> = (word_of_int (sint x) :: 32 word) * word_of_int (uint y)"
    by (simp only: of_int_mult)
  also have "(word_of_int (sint x) :: 32 word) = x" by simp
  also have "(word_of_int (uint y) :: 32 word) = int_of_long y"
    unfolding int_of_long_def by (rule ucast_eq [symmetric])
  finally show ?thesis .
qed

lemma tile_loop_count:
  assumes "n = nat (sint naxis)" "n \<le> length naxes" "n \<le> length tileSize"
    and "n \<le> length (znaxis (fst fn))" "n \<le> length (tilesize (fst fn))"
    and "\<And>a. a < n \<Longrightarrow> 1 \<le> sint (naxes ! a) \<and> 1 \<le> sint (tileSize ! a)"
    and "ii \<le> n"
  shows "map_option snd (tile_loop naxes tileSize naxis ii fn)
         = Some (snd fn * word_of_int (tiles_upto naxes tileSize ii n))"
  using assms
proof (induction naxes tileSize naxis ii fn rule: tile_loop.induct)
  case (1 naxes tileSize naxis ii fn)
  show ?case
  proof (cases "int ii < sint naxis")
    case False
    then have "ii = n" using 1 by linarith
    moreover have "tile_loop naxes tileSize naxis ii fn = Some fn"
      using False by (subst tile_loop.simps) simp
    ultimately show ?thesis
      by (simp add: tiles_upto_def)
  next
    case True
    then have lt: "ii < n" using 1 by linarith
    have pos: "1 \<le> sint (naxes ! ii)" "1 \<le> sint (tileSize ! ii)" using 1(7) [OF lt] by simp_all
    have nz: "tileSize ! ii \<noteq> 0" using pos(2) by auto
    have guard: "ii < length naxes \<and> ii < length tileSize \<and> ii < length (znaxis (fst fn))
            \<and> ii < length (tilesize (fst fn)) \<and> tileSize ! ii \<noteq> 0"
      using lt 1 nz by simp
    let ?fn' = "((fst fn)\<lparr>znaxis := (znaxis (fst fn))[ii := naxes ! ii],
                          tilesize := (tilesize (fst fn))[ii := tileSize ! ii],
                          maxtilelen := maxtilelen (fst fn) * tileSize ! ii\<rparr>,
                 int_of_long (long_of_int (snd fn) * (long_div (naxes ! ii - 1) (tileSize ! ii) + 1)))"
    have step: "tile_loop naxes tileSize naxis ii fn = tile_loop naxes tileSize naxis (Suc ii) ?fn'"
      using True guard by (subst tile_loop.simps) simp
    have ih: "map_option snd (tile_loop naxes tileSize naxis (Suc ii) ?fn')
         = Some (snd ?fn' * word_of_int (tiles_upto naxes tileSize (Suc ii) n))"
      using 1 True guard lt by (intro 1(1)) simp_all
    have ax: "int_of_long (long_div (naxes ! ii - 1) (tileSize ! ii) + 1)
              = word_of_int (axis_tiles (naxes ! ii) (tileSize ! ii))"
      unfolding axis_count [OF pos, symmetric] by (rule int_of_long_sint)
    have up: "tiles_upto naxes tileSize ii n
              = axis_tiles (naxes ! ii) (tileSize ! ii) * tiles_upto naxes tileSize (Suc ii) n"
      using lt by (simp add: tiles_upto_def upt_conv_Cons)
    show ?thesis
      unfolding step ih up by (simp add: int_of_long_mult ax)
  qed
qed

lemma axis_tiles_pos:
  assumes "1 \<le> sint n" "1 \<le> sint t"
  shows "1 \<le> axis_tiles n t"
proof -
  have "0 \<le> (sint n - 1) div sint t" using assms by (simp add: pos_imp_zdiv_nonneg_iff)
  then show ?thesis unfolding axis_tiles_def ceil_div_int [OF assms] by simp
qed

lemma prod_list_ge1:
  fixes xs :: "int list"
  shows "(\<And>x. x \<in> set xs \<Longrightarrow> 1 \<le> x) \<Longrightarrow> 1 \<le> prod_list xs"
proof (induction xs)
  case Nil
  show ?case by simp
next
  case (Cons a xs)
  have "1 \<le> a" "1 \<le> prod_list xs" using Cons by simp_all
  then have "1 * 1 \<le> a * prod_list xs" by (intro mult_mono) simp_all
  then show ?case by simp
qed

lemma tiles_upto_pos:
  assumes "\<And>a. a < n \<Longrightarrow> 1 \<le> sint (naxes ! a) \<and> 1 \<le> sint (tileSize ! a)"
  shows "1 \<le> tiles_upto naxes tileSize i n"
proof -
  have "1 \<le> prod_list (map (\<lambda>a. axis_tiles (naxes ! a) (tileSize ! a)) [i ..< n])"
    using assms by (intro prod_list_ge1) (auto intro: axis_tiles_pos)
  then show ?thesis by (simp add: tiles_upto_def)
qed

lemma count_tiles_word:
  assumes "nat (sint naxis) \<le> MAX_COMPRESS_DIM"
    and "nat (sint naxis) \<le> length naxes" "nat (sint naxis) \<le> length tileSize"
    and "\<And>a. a < nat (sint naxis) \<Longrightarrow> 1 \<le> sint (naxes ! a) \<and> 1 \<le> sint (tileSize ! a)"
  shows "map_option snd (count_tiles naxes tileSize naxis f)
         = Some (word_of_int (tiles_upto naxes tileSize 0 (nat (sint naxis))))"
  unfolding count_tiles_def
  using assms by (subst tile_loop_count [where n = "nat (sint naxis)"]) simp_all

text \<open>
  C5 (as amended). For at most \<open>MAX_COMPRESS_DIM\<close> axes whose image and tile extents
  are all at least 1: on every axis \<open>(extent - 1) / tile + 1\<close> in \<^verbatim>\<open>long\<close> arithmetic is
  the ceiling of extent over tile; the computed \<^verbatim>\<open>ntiles\<close> is the product of these
  ceilings reduced to 32 bits; and it equals the product whenever the product is below
  \<open>2\<^sup>3\<^sup>1\<close>.
\<close>

theorem tile_count_product:
  assumes "nat (sint naxis) \<le> MAX_COMPRESS_DIM"
    and "nat (sint naxis) \<le> length naxes" "nat (sint naxis) \<le> length tileSize"
    and "\<forall>a < nat (sint naxis). 1 \<le> sint (naxes ! a) \<and> 1 \<le> sint (tileSize ! a)"
  shows "(\<forall>a < nat (sint naxis).
            sint (long_div (naxes ! a - 1) (tileSize ! a) + 1) = axis_tiles (naxes ! a) (tileSize ! a))
       \<and> map_option snd (count_tiles naxes tileSize naxis f)
           = Some (word_of_int (tiles_upto naxes tileSize 0 (nat (sint naxis))))
       \<and> (tiles_upto naxes tileSize 0 (nat (sint naxis)) < 2 ^ 31 \<longrightarrow>
            map_option (\<lambda>r. sint (snd r)) (count_tiles naxes tileSize naxis f)
              = Some (tiles_upto naxes tileSize 0 (nat (sint naxis))))"
proof -
  let ?P = "tiles_upto naxes tileSize 0 (nat (sint naxis))"
  have pos: "\<And>a. a < nat (sint naxis) \<Longrightarrow> 1 \<le> sint (naxes ! a) \<and> 1 \<le> sint (tileSize ! a)"
    using assms(4) by simp
  have w: "map_option snd (count_tiles naxes tileSize naxis f) = Some (word_of_int ?P)"
    using assms(1-3) pos by (rule count_tiles_word)
  have ge: "1 \<le> ?P" using pos by (rule tiles_upto_pos)
  have s: "sint (word_of_int ?P :: 32 word) = ?P" if "?P < 2 ^ 31"
    using that ge by (simp add: sint_sbintrunc' signed_take_bit_int_eq_self)
  have "map_option (\<lambda>r. sint (snd r)) (count_tiles naxes tileSize naxis f) = Some ?P" if "?P < 2 ^ 31"
  proof -
    have "map_option (\<lambda>r. sint (snd r)) (count_tiles naxes tileSize naxis f)
          = map_option sint (map_option snd (count_tiles naxes tileSize naxis f))"
      by (simp add: option.map_comp comp_def)
    then show ?thesis using w s [OF that] by simp
  qed
  then show ?thesis using w pos by (simp add: axis_count)
qed

theorem tile_count_product_witness:
  "nat (sint (2 :: 32 word)) \<le> MAX_COMPRESS_DIM
   \<and> map_option snd (count_tiles [10, 7] [4, 3] 2 zero_file) = Some 9
   \<and> sint (long_div (10 - 1) 4 + 1) = 3"
proof -
  have h1: "nat (sint (2 :: 32 word)) \<le> MAX_COMPRESS_DIM" by (simp add: MAX_COMPRESS_DIM_def)
  have h2: "nat (sint (2 :: 32 word)) \<le> length [10, 7 :: 64 word]" by simp
  have h3: "nat (sint (2 :: 32 word)) \<le> length [4, 3 :: 64 word]" by simp
  have h4: "\<forall>a < nat (sint (2 :: 32 word)). 1 \<le> sint ([10, 7 :: 64 word] ! a) \<and> 1 \<le> sint ([4, 3 :: 64 word] ! a)"
    by (simp add: less_Suc_eq numeral_2_eq_2)
  have e: "tiles_upto [10, 7] [4, 3] 0 (nat (sint (2 :: 32 word))) = 9"
    by (simp add: tiles_upto_def axis_tiles_def upt_conv_Cons numeral_2_eq_2)
  have a: "axis_tiles 10 4 = 3" by (simp add: axis_tiles_def)
  show ?thesis
    using tile_count_product [OF h1 h2 h3 h4, of zero_file] h1 e a
    by (simp add: less_Suc_eq numeral_2_eq_2)
qed

text \<open>
  The claim as stated, for every pair of extents, fails when the product does not fit an
  \<^verbatim>\<open>int\<close>: a 65536 by 65536 image in 1 by 1 tiles has \<open>2\<^sup>3\<^sup>2\<close> tiles and \<^verbatim>\<open>ntiles\<close> is 0.
\<close>

theorem tile_count_overflow:
  "map_option snd (count_tiles [65536, 65536] [1, 1] 2 zero_file) = Some 0
   \<and> axis_tiles 65536 1 * axis_tiles 65536 1 = 4294967296"
proof -
  have h1: "nat (sint (2 :: 32 word)) \<le> MAX_COMPRESS_DIM" by (simp add: MAX_COMPRESS_DIM_def)
  have e: "tiles_upto [65536, 65536] [1, 1] 0 (nat (sint (2 :: 32 word))) = 4294967296"
    by (simp add: tiles_upto_def axis_tiles_def upt_conv_Cons numeral_2_eq_2)
  have "map_option snd (count_tiles [65536, 65536] [1, 1] 2 zero_file)
        = Some (word_of_int (tiles_upto [65536, 65536] [1, 1] 0 (nat (sint (2 :: 32 word)))))"
    by (rule count_tiles_word) (auto simp add: MAX_COMPRESS_DIM_def less_Suc_eq numeral_2_eq_2)
  also have "(word_of_int (tiles_upto [65536, 65536] [1, 1] 0 (nat (sint (2 :: 32 word)))) :: 32 word) = 0"
    unfolding e by simp
  finally have "map_option snd (count_tiles [65536, 65536] [1, 1] 2 zero_file) = Some 0" .
  moreover have "axis_tiles 65536 1 * axis_tiles 65536 1 = 4294967296"
    by (simp add: axis_tiles_def)
  ultimately show ?thesis by (rule conjI)
qed


section \<open>What the getters return\<close>

lemma fst_get_header_string: "fst (get_header_string h k (Some []) s) = header_string h k"
  by (cases "h k")
     (auto simp: get_header_string_def header_string_def PyObject_GetItem_def PyString_AsString_def
           split: pyobj.splits)

lemma fst_get_header_long: "fst (get_header_long h k d s) = header_long h k d"
  by (cases "h k")
     (auto simp: get_header_long_def header_long_def PyObject_GetItem_def PyLong_AsLong_def
           split: sum.splits)

lemma fst_get_header_longlong: "fst (get_header_longlong h k d s) = header_long h k d"
  by (cases "h k")
     (auto simp: get_header_longlong_def header_long_def PyObject_GetItem_def PyLong_AsLongLong_def
           split: sum.splits)

lemma header_long_absent: "h k = Inl e \<Longrightarrow> header_long h k d = d"
  by (simp add: header_long_def)

lemma header_long_int:
  "h k = Inr (PyInt i) \<Longrightarrow> - (2 ^ 63) \<le> i \<Longrightarrow> i < 2 ^ 63 \<Longrightarrow> header_long h k d = word_of_int i"
  by (simp add: header_long_def long_value_def)

section \<open>Column descriptors\<close>

lemma c_str_no_NUL: "NUL \<notin> set (c_str xs)"
  unfolding c_str_def by (induction xs) auto

lemma c_str_idem: "NUL \<notin> set xs \<Longrightarrow> c_str xs = xs"
  unfolding c_str_def by (induction xs) auto

lemma c_str_append_NUL: "NUL \<notin> set xs \<Longrightarrow> c_str (xs @ NUL # ys) = xs"
  unfolding c_str_def by (induction xs) auto

lemma strncpy_length: "n \<le> length dst \<Longrightarrow> length (strncpy dst src n) = length dst"
  by (simp add: strncpy_def)

lemma c_str_strncpy:
  "c_str ((strncpy dst src n)[n := NUL]) = take n (c_str src)"
proof (cases "n \<le> length (c_str src)")
  case True
  have nn: "NUL \<notin> set (take n (c_str src))"
    using c_str_no_NUL [of src] by (auto dest: in_set_takeD)
  have len: "length (take n (c_str src)) = n" using True by simp
  have e: "strncpy dst src n = take n (c_str src) @ drop n dst"
    using True by (simp add: strncpy_def)
  show ?thesis
  proof (cases "drop n dst")
    case Nil
    then show ?thesis using e nn len by (simp add: c_str_idem list_update_beyond)
  next
    case (Cons d ds)
    have "(strncpy dst src n)[n := NUL] = take n (c_str src) @ NUL # ds"
      unfolding e Cons using len by (simp add: list_update_append)
    then show ?thesis using nn by (simp add: c_str_append_NUL)
  qed
next
  case False
  then have lt: "length (c_str src) < n" by simp
  then obtain m where m: "n - length (c_str src) = Suc m" by (cases "n - length (c_str src)") auto
  have e: "strncpy dst src n = c_str src @ NUL # (replicate m NUL @ drop n dst)"
    using lt m by (simp add: strncpy_def replicate_app_Cons_same)
  have "(strncpy dst src n)[n := NUL] = c_str src @ NUL # ((replicate m NUL @ drop n dst)[m := NUL])"
    unfolding e using lt m by (simp add: list_update_append)
  then show ?thesis using lt c_str_no_NUL [of src] by (simp add: c_str_append_NUL)
qed

lemma strncpy_terminated:
  "n < length dst \<Longrightarrow> length ((strncpy dst src n)[n := NUL]) = length dst
     \<and> (strncpy dst src n)[n := NUL] ! n = NUL"
  by (simp add: strncpy_def)

lemma body_Some:
  assumes "header_string h (snprintf 9 ''TTYPE'' idx) = Some name"
    and "header_string h (snprintf 9 ''TFORM'' idx) = Some form"
  shows "\<exists>c vs'. tcolumns_loop_body ext h idx vs = Some (c, vs')
           \<and> ttype c = (strncpy ((ttype (fresh_column ext idx))[0 := NUL]) name 69)[69 := NUL]
           \<and> tform c = (strncpy ((tform (fresh_column ext idx))[0 := NUL]) form 9)[9 := NUL]"
  using assms
  by (simp add: tcolumns_loop_body_def Let_def fst_get_header_string)

lemma body_column:
  assumes "header_string h (snprintf 9 ''TTYPE'' idx) \<noteq> None"
    and "header_string h (snprintf 9 ''TFORM'' idx) \<noteq> None"
  shows "\<exists>c vs'. tcolumns_loop_body ext h idx vs = Some (c, vs')
           \<and> map_option (\<lambda>x. take 69 (c_str x)) (header_string h (snprintf 9 ''TTYPE'' idx))
               = Some (c_str (ttype c))
           \<and> map_option (\<lambda>x. take 9 (c_str x)) (header_string h (snprintf 9 ''TFORM'' idx))
               = Some (c_str (tform c))
           \<and> (length (ttype (fresh_column ext idx)) = 70 \<longrightarrow>
                length (ttype c) = 70 \<and> ttype c ! 69 = NUL)
           \<and> (length (tform (fresh_column ext idx)) = 10 \<longrightarrow>
                length (tform c) = 10 \<and> tform c ! 9 = NUL)"
proof -
  obtain name form where nf: "header_string h (snprintf 9 ''TTYPE'' idx) = Some name"
      "header_string h (snprintf 9 ''TFORM'' idx) = Some form"
    using assms by auto
  obtain c vs' where b: "tcolumns_loop_body ext h idx vs = Some (c, vs')"
    "ttype c = (strncpy ((ttype (fresh_column ext idx))[0 := NUL]) name 69)[69 := NUL]"
    "tform c = (strncpy ((tform (fresh_column ext idx))[0 := NUL]) form 9)[9 := NUL]"
    using body_Some [OF nf] by blast
  have "length (ttype c) = 70 \<and> ttype c ! 69 = NUL" if "length (ttype (fresh_column ext idx)) = 70"
    unfolding b using that by (intro strncpy_terminated [THEN conjunct1, THEN trans] conjI
        strncpy_terminated [THEN conjunct2]) simp_all
  moreover have "length (tform c) = 10 \<and> tform c ! 9 = NUL" if "length (tform (fresh_column ext idx)) = 10"
    unfolding b using that by (intro strncpy_terminated [THEN conjunct1, THEN trans] conjI
        strncpy_terminated [THEN conjunct2]) simp_all
  ultimately show ?thesis
    using b(1) nf by (simp add: b(2,3) c_str_strncpy)
qed

lemma loop_columns:
  assumes "\<And>idx. idx \<in> set ixs \<Longrightarrow> header_string h (snprintf 9 ''TTYPE'' idx) \<noteq> None
              \<and> header_string h (snprintf 9 ''TFORM'' idx) \<noteq> None"
  shows "\<exists>cols vs'. tcolumns_loop ext h ixs vs = Some (cols, vs') \<and> length cols = length ixs
           \<and> (\<forall>n < length ixs.
                map_option (\<lambda>x. take 69 (c_str x)) (header_string h (snprintf 9 ''TTYPE'' (ixs ! n)))
                  = Some (c_str (ttype (cols ! n)))
              \<and> map_option (\<lambda>x. take 9 (c_str x)) (header_string h (snprintf 9 ''TFORM'' (ixs ! n)))
                  = Some (c_str (tform (cols ! n)))
              \<and> (length (ttype (fresh_column ext (ixs ! n))) = 70 \<longrightarrow>
                   length (ttype (cols ! n)) = 70 \<and> ttype (cols ! n) ! 69 = NUL)
              \<and> (length (tform (fresh_column ext (ixs ! n))) = 10 \<longrightarrow>
                   length (tform (cols ! n)) = 10 \<and> tform (cols ! n) ! 9 = NUL))"
  using assms
proof (induction ixs arbitrary: vs)
  case Nil
  show ?case by simp
next
  case (Cons i ixs)
  obtain c vs1 where c: "tcolumns_loop_body ext h i vs = Some (c, vs1)"
     "map_option (\<lambda>x. take 69 (c_str x)) (header_string h (snprintf 9 ''TTYPE'' i)) = Some (c_str (ttype c))"
     "map_option (\<lambda>x. take 9 (c_str x)) (header_string h (snprintf 9 ''TFORM'' i)) = Some (c_str (tform c))"
     "length (ttype (fresh_column ext i)) = 70 \<longrightarrow> length (ttype c) = 70 \<and> ttype c ! 69 = NUL"
     "length (tform (fresh_column ext i)) = 10 \<longrightarrow> length (tform c) = 10 \<and> tform c ! 9 = NUL"
    using body_column [of h i ext vs] Cons.prems [of i] by auto
  obtain cols vs2 where r: "tcolumns_loop ext h ixs vs1 = Some (cols, vs2)" "length cols = length ixs"
     "\<forall>n < length ixs.
                map_option (\<lambda>x. take 69 (c_str x)) (header_string h (snprintf 9 ''TTYPE'' (ixs ! n)))
                  = Some (c_str (ttype (cols ! n)))
              \<and> map_option (\<lambda>x. take 9 (c_str x)) (header_string h (snprintf 9 ''TFORM'' (ixs ! n)))
                  = Some (c_str (tform (cols ! n)))
              \<and> (length (ttype (fresh_column ext (ixs ! n))) = 70 \<longrightarrow>
                   length (ttype (cols ! n)) = 70 \<and> ttype (cols ! n) ! 69 = NUL)
              \<and> (length (tform (fresh_column ext (ixs ! n))) = 10 \<longrightarrow>
                   length (tform (cols ! n)) = 10 \<and> tform (cols ! n) ! 9 = NUL)"
    using Cons.IH [of vs1] Cons.prems by auto
  have "tcolumns_loop ext h (i # ixs) vs = Some (c # cols, vs2)"
    using c(1) r(1) by simp
  moreover have "length (c # cols) = length (i # ixs)" using r(2) by simp
  moreover have "\<forall>n < length (i # ixs).
                map_option (\<lambda>x. take 69 (c_str x)) (header_string h (snprintf 9 ''TTYPE'' ((i # ixs) ! n)))
                  = Some (c_str (ttype ((c # cols) ! n)))
              \<and> map_option (\<lambda>x. take 9 (c_str x)) (header_string h (snprintf 9 ''TFORM'' ((i # ixs) ! n)))
                  = Some (c_str (tform ((c # cols) ! n)))
              \<and> (length (ttype (fresh_column ext ((i # ixs) ! n))) = 70 \<longrightarrow>
                   length (ttype ((c # cols) ! n)) = 70 \<and> ttype ((c # cols) ! n) ! 69 = NUL)
              \<and> (length (tform (fresh_column ext ((i # ixs) ! n))) = 10 \<longrightarrow>
                   length (tform ((c # cols) ! n)) = 10 \<and> tform ((c # cols) ! n) ! 9 = NUL)"
  proof (intro allI impI)
    fix n assume "n < length (i # ixs)"
    then show "map_option (\<lambda>x. take 69 (c_str x)) (header_string h (snprintf 9 ''TTYPE'' ((i # ixs) ! n)))
                  = Some (c_str (ttype ((c # cols) ! n)))
              \<and> map_option (\<lambda>x. take 9 (c_str x)) (header_string h (snprintf 9 ''TFORM'' ((i # ixs) ! n)))
                  = Some (c_str (tform ((c # cols) ! n)))
              \<and> (length (ttype (fresh_column ext ((i # ixs) ! n))) = 70 \<longrightarrow>
                   length (ttype ((c # cols) ! n)) = 70 \<and> ttype ((c # cols) ! n) ! 69 = NUL)
              \<and> (length (tform (fresh_column ext ((i # ixs) ! n))) = 10 \<longrightarrow>
                   length (tform ((c # cols) ! n)) = 10 \<and> tform ((c # cols) ! n) ! 9 = NUL)"
      using c(2-5) r(3) by (cases n) simp_all
  qed
  ultimately show ?case by blast
qed


lemma tcolumns_from_header_columns:
  assumes "unat (header_long h ''TFIELDS'' 0) < 2 ^ 32 - 1"
    and "\<forall>idx \<in> {1 .. unat (header_long h ''TFIELDS'' 0)}.
           header_string h (snprintf 9 ''TTYPE'' idx) \<noteq> None
         \<and> header_string h (snprintf 9 ''TFORM'' idx) \<noteq> None"
    and "mem \<or> header_long h ''TFIELDS'' 0 = 0"
  shows "\<exists>cols s'. tcolumns_from_header ext h mem s = Some (0, cols, header_long h ''TFIELDS'' 0, s')
           \<and> length cols = unat (header_long h ''TFIELDS'' 0)
           \<and> (\<forall>n < length cols.
                map_option (\<lambda>x. take 69 (c_str x)) (header_string h (snprintf 9 ''TTYPE'' (Suc n)))
                  = Some (c_str (ttype (cols ! n)))
              \<and> map_option (\<lambda>x. take 9 (c_str x)) (header_string h (snprintf 9 ''TFORM'' (Suc n)))
                  = Some (c_str (tform (cols ! n)))
              \<and> (length (ttype (fresh_column ext (Suc n))) = 70 \<longrightarrow>
                   length (ttype (cols ! n)) = 70 \<and> ttype (cols ! n) ! 69 = NUL)
              \<and> (length (tform (fresh_column ext (Suc n))) = 10 \<longrightarrow>
                   length (tform (cols ! n)) = 10 \<and> tform (cols ! n) ! 9 = NUL))"
proof -
  let ?t = "header_long h ''TFIELDS'' 0"
  let ?ixs = "[1 ..< Suc (unat ?t)]"
  let ?s1 = "(if mem then (snd (get_header_long h ''TFIELDS'' 0 s))\<lparr>blocks := Suc (blocks (snd (get_header_long h ''TFIELDS'' 0 s)))\<rparr>
                else snd (get_header_long h ''TFIELDS'' 0 s))"
  have ok: "\<And>idx. idx \<in> set ?ixs \<Longrightarrow> header_string h (snprintf 9 ''TTYPE'' idx) \<noteq> None
              \<and> header_string h (snprintf 9 ''TFORM'' idx) \<noteq> None"
    using assms(2) by auto
  obtain cols vs' where l: "tcolumns_loop ext h ?ixs (fresh_vars ext\<lparr>v_status := 0\<rparr>, ?s1) = Some (cols, vs')"
     "length cols = length ?ixs"
     "\<forall>n < length ?ixs.
                map_option (\<lambda>x. take 69 (c_str x)) (header_string h (snprintf 9 ''TTYPE'' (?ixs ! n)))
                  = Some (c_str (ttype (cols ! n)))
              \<and> map_option (\<lambda>x. take 9 (c_str x)) (header_string h (snprintf 9 ''TFORM'' (?ixs ! n)))
                  = Some (c_str (tform (cols ! n)))
              \<and> (length (ttype (fresh_column ext (?ixs ! n))) = 70 \<longrightarrow>
                   length (ttype (cols ! n)) = 70 \<and> ttype (cols ! n) ! 69 = NUL)
              \<and> (length (tform (fresh_column ext (?ixs ! n))) = 10 \<longrightarrow>
                   length (tform (cols ! n)) = 10 \<and> tform (cols ! n) ! 9 = NUL)"
    using loop_columns [of ?ixs h ext "(fresh_vars ext\<lparr>v_status := 0\<rparr>, ?s1)", OF ok] by blast
  have len: "length cols = unat ?t" using l(2) by simp
  have nth: "?ixs ! n = Suc n" if "n < unat ?t" for n
    using that by (simp add: nth_upt del: upt_Suc)
  have "tcolumns_from_header ext h mem s = Some (0, cols, ?t, snd vs')"
    using assms(1,3) l(1) by (auto simp add: tcolumns_from_header_def Let_def fst_get_header_long)
  moreover have "\<forall>n < length cols.
                map_option (\<lambda>x. take 69 (c_str x)) (header_string h (snprintf 9 ''TTYPE'' (Suc n)))
                  = Some (c_str (ttype (cols ! n)))
              \<and> map_option (\<lambda>x. take 9 (c_str x)) (header_string h (snprintf 9 ''TFORM'' (Suc n)))
                  = Some (c_str (tform (cols ! n)))
              \<and> (length (ttype (fresh_column ext (Suc n))) = 70 \<longrightarrow>
                   length (ttype (cols ! n)) = 70 \<and> ttype (cols ! n) ! 69 = NUL)
              \<and> (length (tform (fresh_column ext (Suc n))) = 10 \<longrightarrow>
                   length (tform (cols ! n)) = 10 \<and> tform (cols ! n) ! 9 = NUL)"
  proof (intro allI impI)
    fix n assume "n < length cols"
    then have n: "n < unat ?t" using len by simp
    then have "n < length ?ixs" by simp
    from l(3) [rule_format, OF this] show "map_option (\<lambda>x. take 69 (c_str x)) (header_string h (snprintf 9 ''TTYPE'' (Suc n)))
                  = Some (c_str (ttype (cols ! n)))
              \<and> map_option (\<lambda>x. take 9 (c_str x)) (header_string h (snprintf 9 ''TFORM'' (Suc n)))
                  = Some (c_str (tform (cols ! n)))
              \<and> (length (ttype (fresh_column ext (Suc n))) = 70 \<longrightarrow>
                   length (ttype (cols ! n)) = 70 \<and> ttype (cols ! n) ! 69 = NUL)
              \<and> (length (tform (fresh_column ext (Suc n))) = 10 \<longrightarrow>
                   length (tform (cols ! n)) = 10 \<and> tform (cols ! n) ! 9 = NUL)"
      unfolding nth [OF n] .
  qed
  ultimately show ?thesis using len by blast
qed

lemma body_None:
  assumes "header_string h (snprintf 9 ''TTYPE'' idx) = None
         \<or> header_string h (snprintf 9 ''TFORM'' idx) = None"
  shows "tcolumns_loop_body ext h idx vs = None"
  using assms
  by (auto simp: tcolumns_loop_body_def Let_def fst_get_header_string split: option.splits)

lemma loop_None:
  assumes "\<exists>idx \<in> set ixs. header_string h (snprintf 9 ''TTYPE'' idx) = None
              \<or> header_string h (snprintf 9 ''TFORM'' idx) = None"
  shows "tcolumns_loop ext h ixs vs = None"
  using assms
proof (induction ixs arbitrary: vs)
  case Nil
  then show ?case by simp
next
  case (Cons i ixs)
  show ?case
  proof (cases "tcolumns_loop_body ext h i vs")
    case None
    then show ?thesis by simp
  next
    case (Some r)
    have "\<not> (header_string h (snprintf 9 ''TTYPE'' i) = None
         \<or> header_string h (snprintf 9 ''TFORM'' i) = None)"
    proof
      assume "header_string h (snprintf 9 ''TTYPE'' i) = None
         \<or> header_string h (snprintf 9 ''TFORM'' i) = None"
      then have "tcolumns_loop_body ext h i vs = None" by (rule body_None)
      with Some show False by simp
    qed
    then have "\<exists>idx \<in> set ixs. header_string h (snprintf 9 ''TTYPE'' idx) = None
              \<or> header_string h (snprintf 9 ''TFORM'' idx) = None"
      using Cons.prems by auto
    then have "tcolumns_loop ext h ixs (snd r) = None" by (rule Cons.IH)
    then show ?thesis using Some by (cases r) simp
  qed
qed

lemma tcolumns_from_header_returns_iff:
  "tcolumns_from_header ext h mem s \<noteq> None \<longleftrightarrow>
     unat (header_long h ''TFIELDS'' 0) < 2 ^ 32 - 1
     \<and> (mem \<or> header_long h ''TFIELDS'' 0 = 0)
     \<and> (\<forall>idx \<in> {1 .. unat (header_long h ''TFIELDS'' 0)}.
           header_string h (snprintf 9 ''TTYPE'' idx) \<noteq> None
         \<and> header_string h (snprintf 9 ''TFORM'' idx) \<noteq> None)"
proof
  assume r: "tcolumns_from_header ext h mem s \<noteq> None"
  have 1: "unat (header_long h ''TFIELDS'' 0) < 2 ^ 32 - 1"
    using r by (auto simp: tcolumns_from_header_def Let_def fst_get_header_long split: if_splits)
  have 2: "mem \<or> header_long h ''TFIELDS'' 0 = 0"
    using r by (auto simp: tcolumns_from_header_def Let_def fst_get_header_long split: if_splits)
  have "tcolumns_loop ext h [1 ..< Suc (unat (header_long h ''TFIELDS'' 0))]
          (fresh_vars ext\<lparr>v_status := 0\<rparr>,
           (if mem then (snd (get_header_long h ''TFIELDS'' 0 s))\<lparr>blocks := Suc (blocks (snd (get_header_long h ''TFIELDS'' 0 s)))\<rparr>
                else snd (get_header_long h ''TFIELDS'' 0 s)))
        \<noteq> None"
    using r 1 2 by (auto simp: tcolumns_from_header_def Let_def fst_get_header_long split: if_splits option.splits)
  then have "\<not> (\<exists>idx \<in> set [1 ..< Suc (unat (header_long h ''TFIELDS'' 0))].
              header_string h (snprintf 9 ''TTYPE'' idx) = None
              \<or> header_string h (snprintf 9 ''TFORM'' idx) = None)"
    using loop_None [of "[1 ..< Suc (unat (header_long h ''TFIELDS'' 0))]" h ext] by metis
  then have "\<forall>idx \<in> {1 .. unat (header_long h ''TFIELDS'' 0)}.
           header_string h (snprintf 9 ''TTYPE'' idx) \<noteq> None
         \<and> header_string h (snprintf 9 ''TFORM'' idx) \<noteq> None"
    by auto
  with 1 2 show "unat (header_long h ''TFIELDS'' 0) < 2 ^ 32 - 1
     \<and> (mem \<or> header_long h ''TFIELDS'' 0 = 0)
     \<and> (\<forall>idx \<in> {1 .. unat (header_long h ''TFIELDS'' 0)}.
           header_string h (snprintf 9 ''TTYPE'' idx) \<noteq> None
         \<and> header_string h (snprintf 9 ''TFORM'' idx) \<noteq> None)" by blast
next
  assume "unat (header_long h ''TFIELDS'' 0) < 2 ^ 32 - 1
     \<and> (mem \<or> header_long h ''TFIELDS'' 0 = 0)
     \<and> (\<forall>idx \<in> {1 .. unat (header_long h ''TFIELDS'' 0)}.
           header_string h (snprintf 9 ''TTYPE'' idx) \<noteq> None
         \<and> header_string h (snprintf 9 ''TFORM'' idx) \<noteq> None)"
  then show "tcolumns_from_header ext h mem s \<noteq> None"
    using tcolumns_from_header_columns [of h mem ext s] by auto
qed






text \<open>The parser on the two formats the specification gives as examples.\<close>

lemma spec_binary_tform_examples:
  "spec_binary_tform ''1E'' \<lparr>v_dtcode = 0, v_trepeat = 0, v_twidth = 0, v_status = 0\<rparr>
     = \<lparr>v_dtcode = 42, v_trepeat = 1, v_twidth = 4, v_status = 0\<rparr>
   \<and> spec_binary_tform ''320B'' \<lparr>v_dtcode = 0, v_trepeat = 0, v_twidth = 0, v_status = 0\<rparr>
     = \<lparr>v_dtcode = 11, v_trepeat = 320, v_twidth = 1, v_status = 0\<rparr>"
  by (simp add: spec_binary_tform_def is_digit_def number_def tform_code_def)

lemma tcolumns_status_zero:
  "tcolumns_from_header ext h mem s = Some (rc, cols, tfields, s') \<Longrightarrow> rc = 0"
  by (auto simp: tcolumns_from_header_def Let_def split: if_splits option.splits)

text \<open>
  C2. The claim asks that an unrecognised \<^verbatim>\<open>TFORMn\<close> makes the builder fail. The source
  passes \<^verbatim>\<open>status\<close> to the parser and never reads it again: for a header with one
  column whose format is \<^verbatim>\<open>1Z\<close>, and for one whose format is empty, the parser reports
  \<^verbatim>\<open>BAD_TFORM\<close>, yet the builder returns 0 with one descriptor and no error set.
\<close>

theorem bad_tform_accepted:
  "map_option (\<lambda>r. (fst r, length (fst (snd r)), err (snd (snd (snd r)))))
     (tcolumns_from_header example_externals
        (header_of [(''TFIELDS'', PyInt 1), (''TFORM1'', PyString ''1Z'')]) True clean)
   = Some (0, 1, None)
   \<and> map_option (\<lambda>r. (fst r, length (fst (snd r)), err (snd (snd (snd r)))))
     (tcolumns_from_header example_externals
        (header_of [(''TFIELDS'', PyInt 1), (''TFORM1'', PyString [])]) True clean)
   = Some (0, 1, None)
   \<and> v_status (spec_binary_tform ''1Z'' (fresh_vars example_externals\<lparr>v_status := 0\<rparr>)) = BAD_TFORM
   \<and> v_status (spec_binary_tform [] (fresh_vars example_externals\<lparr>v_status := 0\<rparr>)) = BAD_TFORM"
  by (simp add: tcolumns_from_header_def tcolumns_loop_body_def Let_def get_header_long_def
      get_header_string_def get_header_longlong_def get_header_double_def PyObject_GetItem_def
      header_of_def PyLong_AsLong_def long_value_def PyString_AsString_def PyErr_Clear_def
      PyErr_SetString_def snprintf_def dec.simps digit_def clean_def example_externals_def
      spec_binary_tform_def is_digit_def tform_code_def)

section \<open>Compression configuration\<close>

lemma c_str_RICE: "c_str ((strcpy dst ''RICE_1'')[6 := NUL]) = ''RICE_1''"
  by (simp add: strcpy_def c_str_def NUL_def)

text \<open>
  C8. The configuration written by \<^verbatim>\<open>configure_compression\<close> does not depend on the
  header: for any two headers the resulting file structures are equal, and the fields
  hold the fixed values (tag RICE_1, \<open>zbitpix\<close> 16, two axes 440 by 300, tiles 440 by 1,
  Rice block size 32 and bytes per pixel 2, the column numbers and the scale).
\<close>

theorem configure_compression_fixed:
  "configure_compression ext f h1 = configure_compression ext f h2
   \<and> compressimg (configure_compression ext f h1) = 1
   \<and> c_str (zcmptype (configure_compression ext f h1)) = ''RICE_1''
   \<and> compress_type (configure_compression ext f h1) = RICE_1
   \<and> zbitpix (configure_compression ext f h1) = 16
   \<and> zndim (configure_compression ext f h1) = 2
   \<and> take 6 (znaxis (configure_compression ext f h1)) = [440, 300, 0, 0, 0, 0]
   \<and> take 6 (tilesize (configure_compression ext f h1)) = [440, 1, 0, 0, 0, 0]
   \<and> maxtilelen (configure_compression ext f h1) = 440
   \<and> rice_blocksize (configure_compression ext f h1) = 32
   \<and> rice_bytepix (configure_compression ext f h1) = 2
   \<and> maxelem (configure_compression ext f h1) = long_of_int (imcomp_calc_max_elem ext RICE_1 440 16 32)
   \<and> cn_compressed (configure_compression ext f h1) = 1
   \<and> cn_uncompressed (configure_compression ext f h1) = - 1
   \<and> cn_gzip_data (configure_compression ext f h1) = - 1
   \<and> cn_zscale (configure_compression ext f h1) = - 1
   \<and> cn_zzero (configure_compression ext f h1) = - 1
   \<and> cn_zblank (configure_compression ext f h1) = - 1
   \<and> zscale (configure_compression ext f h1) = 1
   \<and> cn_bscale (configure_compression ext f h1) = 1"
  by (simp add: configure_compression_def Let_def c_str_RICE memcpy_def static_znaxis_def
      static_tilesize_def MAX_COMPRESS_DIM_def int_of_long_def)

text \<open>
  C3. The claim asks that \<^verbatim>\<open>ZCMPTYPE\<close> selects the algorithm and that an absent or
  unknown tag gives NONE. The source never reads the keyword: with the keyword absent,
  set to \<^verbatim>\<open>GZIP_1\<close> or set to an unknown tag, the algorithm is RICE_1.
\<close>

theorem configure_compression_ignores_ZCMPTYPE:
  "compress_type (configure_compression example_externals zero_file (header_of [])) = RICE_1
   \<and> compress_type (configure_compression example_externals zero_file
        (header_of [(''ZCMPTYPE'', PyString ''GZIP_1'')])) = RICE_1
   \<and> compress_type (configure_compression example_externals zero_file
        (header_of [(''ZCMPTYPE'', PyString ''NOSUCH_1'')])) = RICE_1"
  by (simp add: configure_compression_def Let_def)

section \<open>Heap layout\<close>

lemma getters_memfiles:
  "memfiles (snd (get_header_string h k ds s)) = memfiles s"
  "memfiles (snd (get_header_long h k dl s)) = memfiles s"
  "memfiles (snd (get_header_double h k dd s)) = memfiles s"
  "memfiles (snd (get_header_longlong h k dl s)) = memfiles s"
  by (simp_all add: get_header_string_def get_header_long_def get_header_double_def
      get_header_longlong_def PyObject_GetItem_def PyErr_SetString_def PyErr_Clear_def
      PyString_AsString_def PyLong_AsLong_def PyLong_AsLongLong_def PyLong_AsDouble_def Let_def
      split: sum.splits pyobj.splits)

lemma body_memfiles:
  "tcolumns_loop_body ext h idx vs = Some (c, vs') \<Longrightarrow> memfiles (snd vs') = memfiles (snd vs)"
  by (auto simp: tcolumns_loop_body_def Let_def getters_memfiles split: option.splits)

lemma loop_memfiles:
  "tcolumns_loop ext h ixs vs = Some (cols, vs') \<Longrightarrow> memfiles (snd vs') = memfiles (snd vs)"
proof (induction ixs arbitrary: vs cols)
  case Nil
  then show ?case by simp
next
  case (Cons i ixs)
  from Cons.prems obtain c vs1 cs where
    b: "tcolumns_loop_body ext h i vs = Some (c, vs1)"
    and l: "tcolumns_loop ext h ixs vs1 = Some (cs, vs')"
    by (auto split: option.splits)
  from Cons.IH [OF l] body_memfiles [OF b] show ?case by simp
qed

lemma tcolumns_from_header_memfiles:
  assumes "tcolumns_from_header ext h mem s = Some (rc, cols, tfields, s')"
  shows "memfiles s' = memfiles s"
proof -
  from assms obtain vs where
    l: "tcolumns_loop ext h [1 ..< Suc (unat (fst (get_header_long h ''TFIELDS'' 0 s)))]
          (fresh_vars ext\<lparr>v_status := 0\<rparr>,
           (if mem then (snd (get_header_long h ''TFIELDS'' 0 s))\<lparr>blocks := Suc (blocks (snd (get_header_long h ''TFIELDS'' 0 s)))\<rparr>
            else snd (get_header_long h ''TFIELDS'' 0 s))) = Some (cols, vs)"
    and s': "s' = snd vs"
    by (auto simp: tcolumns_from_header_def Let_def split: if_splits option.splits)
  from loop_memfiles [OF l] s' show ?thesis by (simp add: getters_memfiles)
qed

lemma configure_compression_frame:
  "filesize (configure_compression ext f h) = filesize f
   \<and> validcode (configure_compression ext f h) = validcode f
   \<and> tableptr (configure_compression ext f h) = tableptr f
   \<and> hdutype (configure_compression ext f h) = hdutype f
   \<and> datastart (configure_compression ext f h) = datastart f
   \<and> tfield (configure_compression ext f h) = tfield f
   \<and> origrows (configure_compression ext f h) = origrows f
   \<and> numrows (configure_compression ext f h) = numrows f
   \<and> rowlength (configure_compression ext f h) = rowlength f
   \<and> heapstart (configure_compression ext f h) = heapstart f
   \<and> heapsize (configure_compression ext f h) = heapsize f"
  by (simp add: configure_compression_def Let_def)

text \<open>
  The function after the column builder has returned: it asks for a memory file of the
  size computed from the array and \<^verbatim>\<open>PCOUNT\<close>; without a file it does not return; with
  a file it returns it with the layout stored, the request recorded in the state.
\<close>

lemma open_from_pyfits_hdu_no_file:
  assumes "tcolumns_from_header ext (hdu_header u) mem s = Some (rc, cols, tfields, s1)"
    and "fst (fits_create_memfile ext (hdu_data u)
            (if PyArray_NBYTES (hdu_data u) + header_long (hdu_header u) ''PCOUNT'' 0 < 2880 then 2880
             else PyArray_NBYTES (hdu_data u) + header_long (hdu_header u) ''PCOUNT'' 0)
            (fresh_status ext)) = None"
  shows "open_from_pyfits_hdu ext u mem s = None"
  using assms
  by (cases "PyArray_NBYTES (hdu_data u) + header_long (hdu_header u) ''PCOUNT'' 0 < 2880")
     (simp_all add: open_from_pyfits_hdu_def call_fits_create_memfile_def Let_def
        fst_get_header_longlong)

lemma open_from_pyfits_hdu_file:
  assumes "tcolumns_from_header ext (hdu_header u) mem s = Some (rc, cols, tfields, s1)"
    and "fst (fits_create_memfile ext (hdu_data u)
            (if PyArray_NBYTES (hdu_data u) + header_long (hdu_header u) ''PCOUNT'' 0 < 2880 then 2880
             else PyArray_NBYTES (hdu_data u) + header_long (hdu_header u) ''PCOUNT'' 0)
            (fresh_status ext)) = Some f0"
  shows "\<exists>f s'. open_from_pyfits_hdu ext u mem s = Some (f, s')
         \<and> filesize f = filesize f0 \<and> validcode f = validcode f0
         \<and> tableptr f = cols
         \<and> rowlength f = header_long (hdu_header u) ''NAXIS1'' 0
         \<and> numrows f = header_long (hdu_header u) ''NAXIS2'' 0
         \<and> origrows f = header_long (hdu_header u) ''NAXIS2'' 0
         \<and> heapstart f = header_long (hdu_header u) ''NAXIS1'' 0 * header_long (hdu_header u) ''NAXIS2'' 0
         \<and> heapsize f = header_long (hdu_header u) ''PCOUNT'' 0
         \<and> memfiles s' = memfiles s @
             [if PyArray_NBYTES (hdu_data u) + header_long (hdu_header u) ''PCOUNT'' 0 < 2880 then 2880
              else PyArray_NBYTES (hdu_data u) + header_long (hdu_header u) ''PCOUNT'' 0]"
  using assms tcolumns_from_header_memfiles [OF assms(1)]
  by (cases "PyArray_NBYTES (hdu_data u) + header_long (hdu_header u) ''PCOUNT'' 0 < 2880")
     (simp_all add: open_from_pyfits_hdu_def call_fits_create_memfile_def Let_def
        fst_get_header_longlong configure_compression_frame getters_memfiles)

lemma builder_returns:
  assumes "unat (header_long h ''TFIELDS'' 0) < 2 ^ 32 - 1"
    and "mem \<or> header_long h ''TFIELDS'' 0 = 0"
    and "\<forall>idx \<in> {1 .. unat (header_long h ''TFIELDS'' 0)}.
           header_string h (snprintf 9 ''TTYPE'' idx) \<noteq> None
         \<and> header_string h (snprintf 9 ''TFORM'' idx) \<noteq> None"
  shows "\<exists>rc cols tfields s1. tcolumns_from_header ext h mem s = Some (rc, cols, tfields, s1)"
  using tcolumns_from_header_returns_iff [of ext h mem s] assms by auto

lemma small_sum_word:
  fixes p :: "64 word"
  assumes "n + unat p < 2880"
  shows "of_nat n + p < 2880"
proof -
  have n: "n < 2 ^ 64" using assms by simp
  have "unat (of_nat n + p :: 64 word) = (n + unat p) mod 2 ^ 64"
    using n by (simp add: unat_word_ariths unat_of_nat)
  also have "\<dots> = n + unat p" using assms by simp
  finally show ?thesis using assms by (simp add: word_less_nat_alt)
qed

lemmas eval_defs = open_from_pyfits_hdu_def call_fits_create_memfile_def tcolumns_from_header_def
      Let_def get_header_long_def get_header_string_def get_header_longlong_def get_header_double_def
      PyObject_GetItem_def header_of_def PyLong_AsLong_def PyLong_AsLongLong_def long_value_def
      PyString_AsString_def PyErr_Clear_def PyErr_SetString_def clean_def example_externals_def
      failing_externals_def PyArray_NBYTES_def configure_compression_def

text \<open>
  C6 (as amended). When the column builder returns and CFITSIO yields a file,
  \<^verbatim>\<open>open_from_pyfits_hdu\<close> returns a layout in which the row length is the value of
  \<^verbatim>\<open>NAXIS1\<close>, the row count the value of \<^verbatim>\<open>NAXIS2\<close> and the heap size the value of
  \<^verbatim>\<open>PCOUNT\<close>, each as the long-integer getter reads it with default 0, so 0 when the
  keyword is absent; the heap start is row length times row count reduced modulo
  \<open>2\<^sup>6\<^sup>4\<close>, and it is the product itself when both values are non-negative integers and
  the product is below \<open>2\<^sup>6\<^sup>3\<close>. The first three hypotheses say that the column builder
  returns, the fourth that CFITSIO yields a file for the declared size.
\<close>

theorem heap_layout_from_header:
  assumes "unat (header_long (hdu_header u) ''TFIELDS'' 0) < 2 ^ 32 - 1"
    and "mem \<or> header_long (hdu_header u) ''TFIELDS'' 0 = 0"
    and "\<forall>idx \<in> {1 .. unat (header_long (hdu_header u) ''TFIELDS'' 0)}.
           header_string (hdu_header u) (snprintf 9 ''TTYPE'' idx) \<noteq> None
         \<and> header_string (hdu_header u) (snprintf 9 ''TFORM'' idx) \<noteq> None"
    and "fst (fits_create_memfile ext (hdu_data u)
            (if PyArray_NBYTES (hdu_data u) + header_long (hdu_header u) ''PCOUNT'' 0 < 2880 then 2880
             else PyArray_NBYTES (hdu_data u) + header_long (hdu_header u) ''PCOUNT'' 0)
            (fresh_status ext)) \<noteq> None"
  shows "(\<exists>f s'. open_from_pyfits_hdu ext u mem s = Some (f, s')
           \<and> rowlength f = header_long (hdu_header u) ''NAXIS1'' 0
           \<and> numrows f = header_long (hdu_header u) ''NAXIS2'' 0
           \<and> heapsize f = header_long (hdu_header u) ''PCOUNT'' 0
           \<and> heapstart f = rowlength f * numrows f
           \<and> uint (heapstart f) = (uint (rowlength f) * uint (numrows f)) mod 2 ^ 64
           \<and> (\<forall>a b. hdu_header u ''NAXIS1'' = Inr (PyInt a) \<and> hdu_header u ''NAXIS2'' = Inr (PyInt b)
                \<and> 0 \<le> a \<and> a < 2 ^ 63 \<and> 0 \<le> b \<and> b < 2 ^ 63 \<and> a * b < 2 ^ 63 \<longrightarrow>
                sint (heapstart f) = a * b))
       \<and> (\<forall>k t. fst (get_header_longlong (hdu_header u) k 0 t) = header_long (hdu_header u) k 0)
       \<and> (\<forall>k e. hdu_header u k = Inl e \<longrightarrow> header_long (hdu_header u) k 0 = 0)
       \<and> (\<forall>k i. hdu_header u k = Inr (PyInt i) \<and> - (2 ^ 63) \<le> i \<and> i < 2 ^ 63 \<longrightarrow>
                header_long (hdu_header u) k 0 = word_of_int i)"
proof -
  obtain rc cols tfields s1 where
    t: "tcolumns_from_header ext (hdu_header u) mem s = Some (rc, cols, tfields, s1)"
    using builder_returns [OF assms(1-3)] by blast
  obtain f0 where c: "fst (fits_create_memfile ext (hdu_data u)
            (if PyArray_NBYTES (hdu_data u) + header_long (hdu_header u) ''PCOUNT'' 0 < 2880 then 2880
             else PyArray_NBYTES (hdu_data u) + header_long (hdu_header u) ''PCOUNT'' 0)
            (fresh_status ext)) = Some f0"
    using assms(4) by auto
  obtain f s' where o: "open_from_pyfits_hdu ext u mem s = Some (f, s')"
    and fields: "rowlength f = header_long (hdu_header u) ''NAXIS1'' 0"
      "numrows f = header_long (hdu_header u) ''NAXIS2'' 0"
      "heapsize f = header_long (hdu_header u) ''PCOUNT'' 0"
      "heapstart f = header_long (hdu_header u) ''NAXIS1'' 0 * header_long (hdu_header u) ''NAXIS2'' 0"
    using open_from_pyfits_hdu_file [OF t c] by blast
  have prod: "heapstart f = rowlength f * numrows f" using fields by simp
  have md: "uint (heapstart f) = (uint (rowlength f) * uint (numrows f)) mod 2 ^ 64"
    unfolding prod by (simp add: uint_word_ariths)
  have small: "sint (heapstart f) = a * b"
    if "hdu_header u ''NAXIS1'' = Inr (PyInt a)" "hdu_header u ''NAXIS2'' = Inr (PyInt b)"
      "0 \<le> a" "a < 2 ^ 63" "0 \<le> b" "b < 2 ^ 63" "a * b < 2 ^ 63" for a b
  proof -
    have "header_long (hdu_header u) ''NAXIS1'' 0 = word_of_int a"
      "header_long (hdu_header u) ''NAXIS2'' 0 = word_of_int b"
      using that by (simp_all add: header_long_int)
    then have "heapstart f = word_of_int (a * b)" using fields by simp
    moreover have "- (2 ^ 63) \<le> a * b" using that(3,5) by (simp add: order_trans [of _ 0])
    ultimately show ?thesis using that(7) by (simp only: sint_long_of_int)
  qed
  have "\<exists>f s'. open_from_pyfits_hdu ext u mem s = Some (f, s')
           \<and> rowlength f = header_long (hdu_header u) ''NAXIS1'' 0
           \<and> numrows f = header_long (hdu_header u) ''NAXIS2'' 0
           \<and> heapsize f = header_long (hdu_header u) ''PCOUNT'' 0
           \<and> heapstart f = rowlength f * numrows f
           \<and> uint (heapstart f) = (uint (rowlength f) * uint (numrows f)) mod 2 ^ 64
           \<and> (\<forall>a b. hdu_header u ''NAXIS1'' = Inr (PyInt a) \<and> hdu_header u ''NAXIS2'' = Inr (PyInt b)
                \<and> 0 \<le> a \<and> a < 2 ^ 63 \<and> 0 \<le> b \<and> b < 2 ^ 63 \<and> a * b < 2 ^ 63 \<longrightarrow>
                sint (heapstart f) = a * b)"
    using o fields(1-3) prod md small by blast
  then show ?thesis
    by (simp add: fst_get_header_longlong header_long_absent header_long_int)
qed

theorem heap_layout_from_header_witness:
  "unat (header_long (hdu_header table_hdu) ''TFIELDS'' 0) < 2 ^ 32 - 1
   \<and> fst (fits_create_memfile example_externals (hdu_data table_hdu) 4800 (fresh_status example_externals)) \<noteq> None
   \<and> (\<exists>f s'. open_from_pyfits_hdu example_externals table_hdu True clean = Some (f, s')
         \<and> rowlength f = 8 \<and> numrows f = 300 \<and> heapsize f = 1200 \<and> heapstart f = 2400
         \<and> sint (heapstart f) = 8 * 300)
   \<and> header_long (hdu_header table_hdu) ''THEAP'' 0 = 0"
proof -
  have t: "header_long (hdu_header table_hdu) ''TFIELDS'' 0 = 0"
    by (simp add: table_hdu_def header_long_def header_of_def)
  have v: "header_long (hdu_header table_hdu) ''NAXIS1'' 0 = 8"
    "header_long (hdu_header table_hdu) ''NAXIS2'' 0 = 300"
    "header_long (hdu_header table_hdu) ''PCOUNT'' 0 = 1200"
    "PyArray_NBYTES (hdu_data table_hdu) = 3600"
    by (simp_all add: table_hdu_def header_long_def header_of_def long_value_def PyArray_NBYTES_def)
  have h1: "unat (header_long (hdu_header table_hdu) ''TFIELDS'' 0) < 2 ^ 32 - 1"
    unfolding t by simp
  have h2: "True \<or> header_long (hdu_header table_hdu) ''TFIELDS'' 0 = 0" by simp
  have h3: "\<forall>idx \<in> {1 .. unat (header_long (hdu_header table_hdu) ''TFIELDS'' 0)}.
           header_string (hdu_header table_hdu) (snprintf 9 ''TTYPE'' idx) \<noteq> None
         \<and> header_string (hdu_header table_hdu) (snprintf 9 ''TFORM'' idx) \<noteq> None"
    unfolding t by simp
  have c: "fst (fits_create_memfile example_externals (hdu_data table_hdu) 4800 (fresh_status example_externals)) \<noteq> None"
    by (simp add: example_externals_def)
  have h4: "fst (fits_create_memfile example_externals (hdu_data table_hdu)
            (if PyArray_NBYTES (hdu_data table_hdu) + header_long (hdu_header table_hdu) ''PCOUNT'' 0 < 2880 then 2880
             else PyArray_NBYTES (hdu_data table_hdu) + header_long (hdu_header table_hdu) ''PCOUNT'' 0)
            (fresh_status example_externals)) \<noteq> None"
    unfolding v using c by simp
  have a: "hdu_header table_hdu ''THEAP'' = Inl KeyError"
    "hdu_header table_hdu ''NAXIS1'' = Inr (PyInt 8)" "hdu_header table_hdu ''NAXIS2'' = Inr (PyInt 300)"
    by (simp_all add: table_hdu_def header_of_def)
  note inst = heap_layout_from_header [OF h1 h2 h3 h4, of clean]
  from inst obtain f s' where o: "open_from_pyfits_hdu example_externals table_hdu True clean = Some (f, s')"
     "rowlength f = 8" "numrows f = 300" "heapsize f = 1200" "heapstart f = rowlength f * numrows f"
     "\<forall>a b. hdu_header table_hdu ''NAXIS1'' = Inr (PyInt a) \<and> hdu_header table_hdu ''NAXIS2'' = Inr (PyInt b)
                \<and> 0 \<le> a \<and> a < 2 ^ 63 \<and> 0 \<le> b \<and> b < 2 ^ 63 \<and> a * b < 2 ^ 63 \<longrightarrow>
                sint (heapstart f) = a * b"
    unfolding v by blast
  have "sint (heapstart f) = 8 * 300"
    using o(6) [rule_format, of 8 300] a by simp
  moreover have "heapstart f = 2400" using o(2,3,5) by simp
  moreover have "header_long (hdu_header table_hdu) ''THEAP'' 0 = 0"
    using inst a(1) by blast
  ultimately show ?thesis using h1 c o(1-4) by blast
qed

text \<open>
  The claim as stated fails when the product does not fit 64 bits: with \<^verbatim>\<open>NAXIS1\<close> and
  \<^verbatim>\<open>NAXIS2\<close> both \<open>2\<^sup>3\<^sup>2\<close> the row length and the row count are \<open>2\<^sup>3\<^sup>2\<close> and the heap
  start is 0.
\<close>

theorem heap_start_wraps:
  "map_option (\<lambda>r. (rowlength (fst r), numrows (fst r), heapstart (fst r), err (snd r)))
     (open_from_pyfits_hdu example_externals wide_hdu True clean)
   = Some (4294967296, 4294967296, 0, None)
   \<and> hdu_header wide_hdu ''NAXIS1'' = Inr (PyInt 4294967296)
   \<and> hdu_header wide_hdu ''NAXIS2'' = Inr (PyInt 4294967296)"
  by (simp add: eval_defs wide_hdu_def)

lemma open_from_pyfits_hdu_with_size:
  assumes "tcolumns_from_header ext (hdu_header u) mem s = Some (rc, cols, tfields, s1)"
    and "(if PyArray_NBYTES (hdu_data u) + header_long (hdu_header u) ''PCOUNT'' 0 < 2880 then 2880
          else PyArray_NBYTES (hdu_data u) + header_long (hdu_header u) ''PCOUNT'' 0) = b"
  shows "(open_from_pyfits_hdu ext u mem s \<noteq> None \<longleftrightarrow>
            fst (fits_create_memfile ext (hdu_data u) b (fresh_status ext)) \<noteq> None)
       \<and> (\<forall>f s'. open_from_pyfits_hdu ext u mem s = Some (f, s') \<longrightarrow>
             memfiles s' = memfiles s @ [b]
           \<and> map_option filesize (fst (fits_create_memfile ext (hdu_data u) b (fresh_status ext)))
               = Some (filesize f))"
proof (cases "fst (fits_create_memfile ext (hdu_data u) b (fresh_status ext))")
  case None
  then have "open_from_pyfits_hdu ext u mem s = None"
    using open_from_pyfits_hdu_no_file [OF assms(1)] assms(2) by simp
  then show ?thesis using None by simp
next
  case (Some f0)
  then obtain f s' where "open_from_pyfits_hdu ext u mem s = Some (f, s')"
    "filesize f = filesize f0" "memfiles s' = memfiles s @ [b]"
    using open_from_pyfits_hdu_file [OF assms(1), of f0] assms(2) by auto
  then show ?thesis using Some by simp
qed

text \<open>
  C9 (as amended). The size declared for the memory file is the data byte count plus
  \<^verbatim>\<open>PCOUNT\<close>, both taken as unsigned 64-bit values and added modulo \<open>2\<^sup>6\<^sup>4\<close>, raised to
  2880 when that sum is smaller. When the column builder returns and the sum is below
  2880, \<^verbatim>\<open>fits_create_memfile\<close> is called with the declared size exactly 2880: the
  function returns exactly when that call yields a file, the call recorded is the one
  with 2880, and the file returned is the one created for 2880. Otherwise the declared
  size is the sum. The sum is below 2880 in particular when \<^verbatim>\<open>PCOUNT\<close> is absent or a
  non-negative integer and the data bytes plus \<^verbatim>\<open>PCOUNT\<close> total less than 2880.
\<close>

theorem memfile_size_minimum:
  assumes "unat (header_long (hdu_header u) ''TFIELDS'' 0) < 2 ^ 32 - 1"
    and "mem \<or> header_long (hdu_header u) ''TFIELDS'' 0 = 0"
    and "\<forall>idx \<in> {1 .. unat (header_long (hdu_header u) ''TFIELDS'' 0)}.
           header_string (hdu_header u) (snprintf 9 ''TTYPE'' idx) \<noteq> None
         \<and> header_string (hdu_header u) (snprintf 9 ''TFORM'' idx) \<noteq> None"
  shows "(PyArray_NBYTES (hdu_data u) + header_long (hdu_header u) ''PCOUNT'' 0 < 2880 \<longrightarrow>
            (open_from_pyfits_hdu ext u mem s \<noteq> None \<longleftrightarrow>
               fst (fits_create_memfile ext (hdu_data u) 2880 (fresh_status ext)) \<noteq> None)
          \<and> (\<forall>f s'. open_from_pyfits_hdu ext u mem s = Some (f, s') \<longrightarrow>
                memfiles s' = memfiles s @ [2880]
              \<and> map_option filesize (fst (fits_create_memfile ext (hdu_data u) 2880 (fresh_status ext)))
                  = Some (filesize f)))
       \<and> (\<not> PyArray_NBYTES (hdu_data u) + header_long (hdu_header u) ''PCOUNT'' 0 < 2880 \<longrightarrow>
            (open_from_pyfits_hdu ext u mem s \<noteq> None \<longleftrightarrow>
               fst (fits_create_memfile ext (hdu_data u)
                      (PyArray_NBYTES (hdu_data u) + header_long (hdu_header u) ''PCOUNT'' 0)
                      (fresh_status ext)) \<noteq> None)
          \<and> (\<forall>f s'. open_from_pyfits_hdu ext u mem s = Some (f, s') \<longrightarrow>
                memfiles s' = memfiles s
                   @ [PyArray_NBYTES (hdu_data u) + header_long (hdu_header u) ''PCOUNT'' 0]
              \<and> map_option filesize (fst (fits_create_memfile ext (hdu_data u)
                      (PyArray_NBYTES (hdu_data u) + header_long (hdu_header u) ''PCOUNT'' 0)
                      (fresh_status ext)))
                  = Some (filesize f)))
       \<and> (length (hdu_data u) + unat (header_long (hdu_header u) ''PCOUNT'' 0) < 2880 \<longrightarrow>
            PyArray_NBYTES (hdu_data u) + header_long (hdu_header u) ''PCOUNT'' 0 < 2880)
       \<and> (\<forall>pc. hdu_header u ''PCOUNT'' = Inr (PyInt pc) \<and> 0 \<le> pc
              \<and> int (length (hdu_data u)) + pc < 2880 \<longrightarrow>
            PyArray_NBYTES (hdu_data u) + header_long (hdu_header u) ''PCOUNT'' 0 < 2880)
       \<and> (\<forall>e. hdu_header u ''PCOUNT'' = Inl e \<and> length (hdu_data u) < 2880 \<longrightarrow>
            PyArray_NBYTES (hdu_data u) + header_long (hdu_header u) ''PCOUNT'' 0 < 2880)"
proof -
  obtain rc cols tfields s1 where
    t: "tcolumns_from_header ext (hdu_header u) mem s = Some (rc, cols, tfields, s1)"
    using builder_returns [OF assms(1-3)] by blast
  note w = open_from_pyfits_hdu_with_size [OF t]
  have lo: "(open_from_pyfits_hdu ext u mem s \<noteq> None \<longleftrightarrow>
               fst (fits_create_memfile ext (hdu_data u) 2880 (fresh_status ext)) \<noteq> None)
          \<and> (\<forall>f s'. open_from_pyfits_hdu ext u mem s = Some (f, s') \<longrightarrow>
                memfiles s' = memfiles s @ [2880]
              \<and> map_option filesize (fst (fits_create_memfile ext (hdu_data u) 2880 (fresh_status ext)))
                  = Some (filesize f))"
    if "PyArray_NBYTES (hdu_data u) + header_long (hdu_header u) ''PCOUNT'' 0 < 2880"
    using that by (intro w) simp
  have hi: "(open_from_pyfits_hdu ext u mem s \<noteq> None \<longleftrightarrow>
               fst (fits_create_memfile ext (hdu_data u)
                      (PyArray_NBYTES (hdu_data u) + header_long (hdu_header u) ''PCOUNT'' 0)
                      (fresh_status ext)) \<noteq> None)
          \<and> (\<forall>f s'. open_from_pyfits_hdu ext u mem s = Some (f, s') \<longrightarrow>
                memfiles s' = memfiles s
                   @ [PyArray_NBYTES (hdu_data u) + header_long (hdu_header u) ''PCOUNT'' 0]
              \<and> map_option filesize (fst (fits_create_memfile ext (hdu_data u)
                      (PyArray_NBYTES (hdu_data u) + header_long (hdu_header u) ''PCOUNT'' 0)
                      (fresh_status ext)))
                  = Some (filesize f))"
    if "\<not> PyArray_NBYTES (hdu_data u) + header_long (hdu_header u) ''PCOUNT'' 0 < 2880"
    using that by (intro w) simp
  have n: "PyArray_NBYTES (hdu_data u) + header_long (hdu_header u) ''PCOUNT'' 0 < 2880"
    if "length (hdu_data u) + unat (header_long (hdu_header u) ''PCOUNT'' 0) < 2880"
    unfolding PyArray_NBYTES_def using that by (rule small_sum_word)
  have p: "PyArray_NBYTES (hdu_data u) + header_long (hdu_header u) ''PCOUNT'' 0 < 2880"
    if "hdu_header u ''PCOUNT'' = Inr (PyInt pc)" "0 \<le> pc" "int (length (hdu_data u)) + pc < 2880" for pc
  proof -
    have "header_long (hdu_header u) ''PCOUNT'' 0 = word_of_int pc"
      using that by (intro header_long_int) simp_all
    moreover have "unat (word_of_int pc :: 64 word) = nat pc"
      using that(2,3) by (simp add: unat_eq_nat_uint uint_word_of_int del: nat_uint_eq)
    ultimately show ?thesis using that(2,3) by (intro n) simp
  qed
  have a: "PyArray_NBYTES (hdu_data u) + header_long (hdu_header u) ''PCOUNT'' 0 < 2880"
    if "hdu_header u ''PCOUNT'' = Inl e" "length (hdu_data u) < 2880" for e
    using that by (intro n) (simp add: header_long_absent)
  show ?thesis using lo hi n p a by blast
qed

theorem memfile_size_minimum_witness:
  "unat (header_long (hdu_header small_hdu) ''TFIELDS'' 0) < 2 ^ 32 - 1
   \<and> int (length (hdu_data small_hdu)) + 40 < 2880
   \<and> hdu_header small_hdu ''PCOUNT'' = Inr (PyInt 40)
   \<and> (\<exists>f s'. open_from_pyfits_hdu example_externals small_hdu True clean = Some (f, s')
         \<and> memfiles s' = [2880] \<and> filesize f = 2880)"
proof -
  have t: "header_long (hdu_header small_hdu) ''TFIELDS'' 0 = 0"
    by (simp add: small_hdu_def header_long_def header_of_def)
  have h1: "unat (header_long (hdu_header small_hdu) ''TFIELDS'' 0) < 2 ^ 32 - 1"
    unfolding t by simp
  have h2: "True \<or> header_long (hdu_header small_hdu) ''TFIELDS'' 0 = 0" by simp
  have h3: "\<forall>idx \<in> {1 .. unat (header_long (hdu_header small_hdu) ''TFIELDS'' 0)}.
           header_string (hdu_header small_hdu) (snprintf 9 ''TTYPE'' idx) \<noteq> None
         \<and> header_string (hdu_header small_hdu) (snprintf 9 ''TFORM'' idx) \<noteq> None"
    unfolding t by simp
  have pc: "hdu_header small_hdu ''PCOUNT'' = Inr (PyInt 40)"
    by (simp add: small_hdu_def header_of_def)
  have l: "int (length (hdu_data small_hdu)) + 40 < 2880"
    by (simp add: small_hdu_def)
  have c: "fst (fits_create_memfile example_externals (hdu_data small_hdu) 2880 (fresh_status example_externals))
           = Some (zero_file\<lparr>filesize := 2880\<rparr>)"
    by (simp add: example_externals_def)
  note inst = memfile_size_minimum [OF h1 h2 h3, of example_externals clean]
  from inst have "\<forall>pc. hdu_header small_hdu ''PCOUNT'' = Inr (PyInt pc) \<and> 0 \<le> pc
              \<and> int (length (hdu_data small_hdu)) + pc < 2880 \<longrightarrow>
            PyArray_NBYTES (hdu_data small_hdu) + header_long (hdu_header small_hdu) ''PCOUNT'' 0 < 2880"
    by blast
  from this [rule_format, of 40]
  have lt: "PyArray_NBYTES (hdu_data small_hdu) + header_long (hdu_header small_hdu) ''PCOUNT'' 0 < 2880"
    using pc l by simp
  have "open_from_pyfits_hdu example_externals small_hdu True clean \<noteq> None"
    using inst lt c by simp
  then obtain f s' where o: "open_from_pyfits_hdu example_externals small_hdu True clean = Some (f, s')"
    by auto
  have "memfiles s' = memfiles clean @ [2880]
        \<and> map_option filesize (fst (fits_create_memfile example_externals (hdu_data small_hdu) 2880
              (fresh_status example_externals))) = Some (filesize f)"
    using inst lt o by blast
  then have "memfiles s' = [2880] \<and> filesize f = 2880"
    unfolding c by (simp add: clean_def)
  then show ?thesis using h1 l pc o by blast
qed

text \<open>
  The claim as stated, for every HDU whose data bytes plus \<^verbatim>\<open>PCOUNT\<close> total less than
  2880, fails for a negative \<^verbatim>\<open>PCOUNT\<close>: with 10 data bytes and \<^verbatim>\<open>PCOUNT\<close> -50 the total
  is -40, and the memory file is declared with \<open>2\<^sup>6\<^sup>4 - 40\<close> bytes.
\<close>

theorem negative_pcount_size:
  "map_option (\<lambda>r. (memfiles (snd r), filesize (fst r), err (snd r)))
     (open_from_pyfits_hdu example_externals negative_hdu True clean)
   = Some ([18446744073709551576], 18446744073709551576, None)
   \<and> hdu_header negative_hdu ''PCOUNT'' = Inr (PyInt (- 50))
   \<and> int (length (hdu_data negative_hdu)) + (- 50) < 2880"
  by (simp add: eval_defs negative_hdu_def)

text \<open>
  C1. The claim asks that a heap region reaching beyond the buffer makes the layout
  computation fail with a layout error before anything is read. The source tests
  nothing: for a header with 100 rows of 100 bytes and a 50-byte heap over a 10-byte
  data array, when CFITSIO creates the file the function returns with the heap placed
  at offset 10000, heap size 50, declared size 2880 and no error set. When the
  uninitialised \<^verbatim>\<open>status\<close> happens to be positive, CFITSIO creates no file and the
  function does not return at all. The last conjunct says the same for every behaviour
  of the CFITSIO functions: the function returns exactly when the call with size 2880
  yields a file, and then with that layout and no error.
\<close>

theorem heap_beyond_buffer_accepted:
  "map_option (\<lambda>r. (heapstart (fst r), heapsize (fst r), filesize (fst r), memfiles (snd r), err (snd r)))
     (open_from_pyfits_hdu example_externals short_hdu True clean)
   = Some (10000, 50, 2880, [2880], None)
   \<and> length (hdu_data short_hdu) = 10
   \<and> open_from_pyfits_hdu failing_externals short_hdu True clean = None
   \<and> map_option (\<lambda>r. (heapstart (fst r), heapsize (fst r), memfiles (snd r), err (snd r)))
       (open_from_pyfits_hdu ext short_hdu True clean)
     = map_option (\<lambda>f. (10000, 50, [2880], None))
         (fst (fits_create_memfile ext (hdu_data short_hdu) 2880 (fresh_status ext)))"
proof -
  have "map_option (\<lambda>r. (heapstart (fst r), heapsize (fst r), memfiles (snd r), err (snd r)))
       (open_from_pyfits_hdu ext short_hdu True clean)
     = map_option (\<lambda>f. (10000, 50, [2880], None))
         (fst (fits_create_memfile ext (hdu_data short_hdu) 2880 (fresh_status ext)))"
    by (cases "fst (fits_create_memfile ext (hdu_data short_hdu) 2880 (fresh_status ext))")
       (simp_all add: open_from_pyfits_hdu_def call_fits_create_memfile_def tcolumns_from_header_def
          Let_def get_header_long_def get_header_string_def get_header_longlong_def
          PyObject_GetItem_def header_of_def PyLong_AsLong_def PyLong_AsLongLong_def long_value_def
          PyString_AsString_def PyErr_Clear_def PyErr_SetString_def clean_def
          PyArray_NBYTES_def configure_compression_frame short_hdu_def)
  then show ?thesis by (simp add: eval_defs short_hdu_def)
qed

section \<open>List conversion\<close>

lemma AsLong_blocks: "blocks (snd (PyLong_AsLong x s)) = blocks s"
  by (simp add: PyLong_AsLong_def PyErr_SetString_def split: sum.splits)

lemma AsLong_err_kept: "err s \<noteq> None \<Longrightarrow> err (snd (PyLong_AsLong x s)) \<noteq> None"
  by (simp add: PyLong_AsLong_def PyErr_SetString_def split: sum.splits)

lemma AsLong_fails: "isl (long_value x) \<Longrightarrow> err (snd (PyLong_AsLong x s)) \<noteq> None"
  by (cases "long_value x") (simp_all add: PyLong_AsLong_def PyErr_SetString_def)

lemma AsLong_converts: "\<not> isl (long_value x) \<Longrightarrow> PyLong_AsLong x s = (projr (long_value x), s)"
  by (cases "long_value x") (simp_all add: PyLong_AsLong_def)

lemma loop_blocks: "blocks (snd (long_array_loop xs s)) = blocks s"
  by (induction xs arbitrary: s) (simp_all add: Let_def AsLong_blocks)

lemma loop_err_kept: "err s \<noteq> None \<Longrightarrow> err (snd (long_array_loop xs s)) \<noteq> None"
proof (induction xs arbitrary: s)
  case Nil
  then show ?case by simp
next
  case (Cons a xs)
  have "err (snd (PyLong_AsLong a s)) \<noteq> None" using Cons.prems by (rule AsLong_err_kept)
  then have "err (snd (long_array_loop xs (snd (PyLong_AsLong a s)))) \<noteq> None" by (rule Cons.IH)
  then show ?case by (simp add: Let_def)
qed

lemma loop_fails:
  "\<exists>x \<in> set xs. isl (long_value x) \<Longrightarrow> err (snd (long_array_loop xs s)) \<noteq> None"
proof (induction xs arbitrary: s)
  case Nil
  then show ?case by simp
next
  case (Cons a xs)
  show ?case
  proof (cases "isl (long_value a)")
    case True
    then show ?thesis by (simp add: Let_def loop_err_kept AsLong_fails)
  next
    case False
    then have "\<exists>x \<in> set xs. isl (long_value x)" using Cons.prems by auto
    then show ?thesis using Cons.IH by (simp add: Let_def)
  qed
qed

lemma loop_converts:
  "\<forall>x \<in> set xs. \<not> isl (long_value x) \<Longrightarrow>
     long_array_loop xs s = (map (\<lambda>x. projr (long_value x)) xs, s)"
  by (induction xs arbitrary: s) (simp_all add: Let_def AsLong_converts)

lemma list_size_int:
  assumes "length xs < 2 ^ 31"
  shows "\<not> sint (of_nat (length xs) :: 32 word) < 0" and "unat (of_nat (length xs) :: 32 word) = length xs"
proof -
  have u: "unat (of_nat (length xs) :: 32 word) = length xs"
    using assms by (simp add: unat_of_nat)
  have "(of_nat (length xs) :: 32 word) = word_of_int (int (length xs))" by simp
  then have "sint (of_nat (length xs) :: 32 word) = signed_take_bit 31 (int (length xs))"
    by (simp only: sint_sbintrunc') simp
  also have "\<dots> = int (length xs)"
    using assms by (intro signed_take_bit_int_eq_self) simp_all
  finally have "sint (of_nat (length xs) :: 32 word) = int (length xs)" .
  then show "\<not> sint (of_nat (length xs) :: 32 word) < 0" by simp
  show "unat (of_nat (length xs) :: 32 word) = length xs" by (rule u)
qed

lemma get_long_array_not_list:
  "\<forall>xs. data \<noteq> PyList xs \<Longrightarrow>
     get_long_array data data_size mem s = (None, data_size, s\<lparr>err := Some TypeError\<rparr>)"
  by (cases data) (simp_all add: get_long_array_def PyErr_SetString_def)

lemma get_long_array_bad_item:
  assumes "length xs < 2 ^ 31" "\<exists>x \<in> set xs. isl (long_value x)"
  shows "fst (get_long_array (PyList xs) data_size mem s) = None
       \<and> blocks (snd (snd (get_long_array (PyList xs) data_size mem s))) = blocks s
       \<and> err (snd (snd (get_long_array (PyList xs) data_size mem s))) \<noteq> None"
  using list_size_int [OF assms(1)] loop_fails [OF assms(2)]
  by (simp add: get_long_array_def Let_def PyErr_Occurred_def PyErr_SetString_def loop_blocks)

lemma get_long_array_all_items:
  assumes "length xs < 2 ^ 31" "\<forall>x \<in> set xs. \<not> isl (long_value x)" "mem" "err s = None"
  shows "get_long_array (PyList xs) data_size mem s
         = (Some (map (\<lambda>x. projr (long_value x)) xs),
            map_option (\<lambda>old. of_nat (length xs)) data_size,
            s\<lparr>blocks := Suc (blocks s)\<rparr>)"
  using list_size_int [OF assms(1)] assms(3,4)
  by (cases data_size)
     (simp_all add: get_long_array_def Let_def PyErr_Occurred_def loop_converts [OF assms(2)])

text \<open>
  C10 (as amended). For an object that is not a list the result is \<^verbatim>\<open>NULL\<close> with a type
  error set. For a list of fewer than \<open>2\<^sup>3\<^sup>1\<close> items: if some item fails the integer
  conversion the result is \<^verbatim>\<open>NULL\<close> and no block stays allocated; if every item converts,
  memory is found and no error is pending at the call, the result is an array of the
  list's length whose element \<open>i\<close> is the conversion of item \<open>i\<close>.
\<close>

theorem get_long_array_all_or_nothing:
  "((\<forall>xs. data \<noteq> PyList xs) \<longrightarrow>
       get_long_array data data_size mem s = (None, data_size, s\<lparr>err := Some TypeError\<rparr>))
   \<and> (length xs < 2 ^ 31 \<and> (\<exists>x \<in> set xs. isl (long_value x)) \<longrightarrow>
         fst (get_long_array (PyList xs) data_size mem s) = None
       \<and> blocks (snd (snd (get_long_array (PyList xs) data_size mem s))) = blocks s)
   \<and> (length xs < 2 ^ 31 \<and> (\<forall>x \<in> set xs. \<not> isl (long_value x)) \<and> mem \<and> err s = None \<longrightarrow>
         (\<exists>out. get_long_array (PyList xs) data_size mem s
                  = (Some out, map_option (\<lambda>old. of_nat (length xs)) data_size, s\<lparr>blocks := Suc (blocks s)\<rparr>)
             \<and> length out = length xs
             \<and> (\<forall>i < length xs. out ! i = fst (PyLong_AsLong (xs ! i) s))))"
proof (intro conjI impI)
  assume "\<forall>xs. data \<noteq> PyList xs"
  then show "get_long_array data data_size mem s = (None, data_size, s\<lparr>err := Some TypeError\<rparr>)"
    by (rule get_long_array_not_list)
next
  assume a: "length xs < 2 ^ 31 \<and> (\<exists>x \<in> set xs. isl (long_value x))"
  from get_long_array_bad_item [of xs data_size mem s] a
  show "fst (get_long_array (PyList xs) data_size mem s) = None"
    and "blocks (snd (snd (get_long_array (PyList xs) data_size mem s))) = blocks s"
    by simp_all
next
  assume a: "length xs < 2 ^ 31 \<and> (\<forall>x \<in> set xs. \<not> isl (long_value x)) \<and> mem \<and> err s = None"
  let ?out = "map (\<lambda>x. projr (long_value x)) xs"
  have "get_long_array (PyList xs) data_size mem s
         = (Some ?out, map_option (\<lambda>old. of_nat (length xs)) data_size, s\<lparr>blocks := Suc (blocks s)\<rparr>)"
    using a by (intro get_long_array_all_items) simp_all
  moreover have "length ?out = length xs" by simp
  moreover have "\<forall>i < length xs. ?out ! i = fst (PyLong_AsLong (xs ! i) s)"
    using a by (simp add: AsLong_converts)
  ultimately show "\<exists>out. get_long_array (PyList xs) data_size mem s
                  = (Some out, map_option (\<lambda>old. of_nat (length xs)) data_size, s\<lparr>blocks := Suc (blocks s)\<rparr>)
             \<and> length out = length xs
             \<and> (\<forall>i < length xs. out ! i = fst (PyLong_AsLong (xs ! i) s))"
    by blast
qed

theorem get_long_array_all_or_nothing_witness:
  "get_long_array (PyString ''440'') None True clean = (None, None, clean\<lparr>err := Some TypeError\<rparr>)
   \<and> fst (get_long_array (PyList [PyInt 440, PyString ''x'']) None True clean) = None
   \<and> blocks (snd (snd (get_long_array (PyList [PyInt 440, PyString ''x'']) None True clean))) = blocks clean
   \<and> get_long_array (PyList [PyInt 440, PyInt 300]) (Some 0) True clean
       = (Some [440, 300], Some 2, clean\<lparr>blocks := Suc (blocks clean)\<rparr>)"
proof -
  have a: "\<forall>xs. PyString ''440'' \<noteq> PyList xs" by simp
  have b: "length [PyInt 440, PyString ''x''] < 2 ^ 31
           \<and> (\<exists>x \<in> set [PyInt 440, PyString ''x'']. isl (long_value x))"
    by (simp add: long_value_def)
  have c: "length [PyInt 440, PyInt 300] < 2 ^ 31 \<and> (\<forall>x \<in> set [PyInt 440, PyInt 300]. \<not> isl (long_value x))
           \<and> True \<and> err clean = None"
    by (simp add: long_value_def clean_def)
  from get_long_array_all_or_nothing [where data = "PyString ''440''" and data_size = None and mem = True and s = clean] a
  have 1: "get_long_array (PyString ''440'') None True clean = (None, None, clean\<lparr>err := Some TypeError\<rparr>)"
    by blast
  from get_long_array_all_or_nothing [where xs = "[PyInt 440, PyString ''x'']" and data_size = None and mem = True and s = clean] b
  have 2: "fst (get_long_array (PyList [PyInt 440, PyString ''x'']) None True clean) = None
         \<and> blocks (snd (snd (get_long_array (PyList [PyInt 440, PyString ''x'']) None True clean))) = blocks clean"
    by blast
  from get_long_array_all_or_nothing [where xs = "[PyInt 440, PyInt 300]" and data_size = "Some 0" and mem = True and s = clean] c
  obtain out where o: "get_long_array (PyList [PyInt 440, PyInt 300]) (Some 0) True clean
       = (Some out, map_option (\<lambda>old. of_nat (length [PyInt 440, PyInt 300])) (Some (0 :: 32 word)),
          clean\<lparr>blocks := Suc (blocks clean)\<rparr>)"
     "length out = length [PyInt 440, PyInt 300]"
     "\<forall>i < length [PyInt 440, PyInt 300]. out ! i = fst (PyLong_AsLong ([PyInt 440, PyInt 300] ! i) clean)"
    by blast
  have "out ! 0 = 440" "out ! 1 = 300"
    using o(3) by (simp_all add: PyLong_AsLong_def long_value_def)
  then have "out = [440, 300]" using o(2)
    by (cases out; cases "tl out") (auto simp: )
  then show ?thesis using 1 2 o(1) by simp
qed

text \<open>
  The claim as stated, for every list, fails for a list of \<open>2\<^sup>3\<^sup>1\<close> items that all
  convert: its length does not fit the \<^verbatim>\<open>int\<close> that holds it, and the result is
  \<^verbatim>\<open>NULL\<close> with a value error.
\<close>

theorem get_long_array_huge_list:
  "get_long_array (PyList (replicate (2 ^ 31) (PyInt 0))) None True clean
     = (None, None, clean\<lparr>err := Some ValueError\<rparr>)
   \<and> long_value (PyInt 0) = Inr 0"
  by (simp add: get_long_array_def Let_def PyErr_SetString_def long_value_def)


end
